theory Spec2Isabelle
  imports Complex_Main "HOL-Library.Word"
begin

section \<open>JavaScript values as the action sees them\<close>

text \<open>
  A JavaScript string is a sequence of UTF-16 code units; \<open>length\<close>, \<open>trim\<close> and the
  regular expression of \<open>validateNamespace\<close> all work on code units. String literals of
  the source are written \<open>lit ''...''\<close>.
\<close>

type_synonym js_string = "16 word list"

definition lit :: "string \<Rightarrow> js_string" where
  "lit s = map of_char s"

text \<open>Rendering of an array length or a loop index inside a template literal.\<close>

fun show_nat :: "nat \<Rightarrow> js_string" where
  "show_nat n =
     (if n < 10 then [of_nat (48 + n)]
      else show_nat (n div 10) @ [of_nat (48 + n mod 10)])"

declare show_nat.simps [simp del]

text \<open>
  The values \<open>JSON.parse\<close> can return. An object is the list of its own properties, each
  key once. A number is an IEEE double in the program; the code only copies numbers and
  tests them for truthiness, so they are kept as reals here, zero being the falsy one.
\<close>

datatype json =
    JNull
  | JBool bool
  | JNum real
  | JStr js_string
  | JArr "json list"
  | JObj "(js_string \<times> json) list"

text \<open>
  What a \<open>throw\<close> or a rejected promise carries: an instance of \<open>Error\<close> (also
  \<open>TypeError\<close>, \<open>SyntaxError\<close>) with its \<open>message\<close>, or any other value.
\<close>

datatype thrown = JsError js_string | NonError json

text \<open>Truthiness: \<open>if (v)\<close> and \<open>!v\<close>. \<open>None\<close> stands for \<open>undefined\<close>.\<close>

fun truthy :: "json \<Rightarrow> bool" where
  "truthy JNull = False"
| "truthy (JBool b) = b"
| "truthy (JNum n) = (n \<noteq> 0)"
| "truthy (JStr s) = (s \<noteq> [])"
| "truthy (JArr xs) = True"
| "truthy (JObj kvs) = True"

fun truthy_opt :: "json option \<Rightarrow> bool" where
  "truthy_opt None = False"
| "truthy_opt (Some v) = truthy v"

text \<open>
  Reading a property \<open>v.k\<close>, for the property names the source reads (\<open>MetricName\<close>,
  \<open>Value\<close>, \<open>Unit\<close>, \<open>Timestamp\<close>, \<open>Dimensions\<close>, \<open>Values\<close>, \<open>Counts\<close>,
  \<open>StatisticValues\<close>, \<open>Name\<close>), none of which a prototype defines: on \<open>null\<close> the
  read throws a \<open>TypeError\<close> (message as V8 words it), on an object it finds the own
  property, on any other value it gives \<open>undefined\<close>.
\<close>

fun field :: "json \<Rightarrow> js_string \<Rightarrow> json option" where
  "field (JObj kvs) k = map_of kvs k"
| "field v k = None"

definition get_prop :: "json \<Rightarrow> js_string \<Rightarrow> thrown + json option" where
  "get_prop v k =
     (if v = JNull
      then Inl (JsError (lit ''Cannot read properties of null (reading ''
                          @ [0x27] @ k @ [0x27] @ lit '')''))
      else Inr (field v k))"

text \<open>\<open>Array.prototype.join\<close> on an array of strings.\<close>

fun join :: "js_string \<Rightarrow> js_string list \<Rightarrow> js_string" where
  "join sep [] = []"
| "join sep [s] = s"
| "join sep (s # t # ss) = s @ sep @ join sep (t # ss)"

text \<open>
  \<open>String(v)\<close> and the conversion a template literal applies to \<open>${v}\<close>. The first
  argument is the runtime's rendering of a number. An array is joined with commas, its
  \<open>null\<close> elements empty; a plain object is \<open>[object Object]\<close>, unless it has an own
  property \<open>toString\<close>, which from JSON is never callable: then the conversion throws a
  \<open>TypeError\<close>.
\<close>

fun to_String :: "(real \<Rightarrow> js_string) \<Rightarrow> json \<Rightarrow> thrown + js_string"
  and to_Strings :: "(real \<Rightarrow> js_string) \<Rightarrow> json list \<Rightarrow> thrown + js_string list" where
  "to_String f JNull = Inr (lit ''null'')"
| "to_String f (JBool b) = Inr (if b then lit ''true'' else lit ''false'')"
| "to_String f (JNum n) = Inr (f n)"
| "to_String f (JStr s) = Inr s"
| "to_String f (JArr xs) =
     (case to_Strings f xs of Inl e \<Rightarrow> Inl e | Inr ss \<Rightarrow> Inr (join (lit '','') ss))"
| "to_String f (JObj kvs) =
     (if lit ''toString'' \<in> fst ` set kvs
      then Inl (JsError (lit ''Cannot convert object to primitive value''))
      else Inr (lit ''[object Object]''))"
| "to_Strings f [] = Inr []"
| "to_Strings f (x # xs) =
     (case (if x = JNull then Inr [] else to_String f x) of
        Inl e \<Rightarrow> Inl e
      | Inr s \<Rightarrow> (case to_Strings f xs of Inl e \<Rightarrow> Inl e | Inr ss \<Rightarrow> Inr (s # ss)))"

fun to_String_opt :: "(real \<Rightarrow> js_string) \<Rightarrow> json option \<Rightarrow> thrown + js_string" where
  "to_String_opt f None = Inr (lit ''undefined'')"
| "to_String_opt f (Some v) = to_String f v"

section \<open>The runtime the functions call into\<close>

text \<open>
  \<open>JSON.parse\<close>, \<open>new Date\<close> and the rendering of numbers belong to the JavaScript
  runtime, not to the repository; the functions take them as a parameter.
  \<open>new_Date v\<close> is \<open>Inl m\<close> when the constructor throws a \<open>TypeError\<close> with message
  \<open>m\<close> (converting an object argument to a primitive can), else the date built.
\<close>

record 'd runtime =
  JSON_parse :: "js_string \<Rightarrow> thrown + json"
  new_Date :: "json \<Rightarrow> js_string + 'd"
  Number_toString :: "real \<Rightarrow> js_string"

text \<open>\<open>error instanceof Error ? error.message : String(error)\<close>\<close>

definition error_text :: "'d runtime \<Rightarrow> thrown \<Rightarrow> thrown + js_string" where
  "error_text rt err =
     (case err of
        JsError message \<Rightarrow> Inr message
      | NonError v \<Rightarrow> to_String (Number_toString rt) v)"

section \<open>validateNamespace\<close>

text \<open>
  The code units \<open>String.prototype.trim\<close> strips: the WhiteSpace and LineTerminator
  productions of ECMAScript, all of them in the basic plane.
\<close>

definition is_whitespace :: "16 word \<Rightarrow> bool" where
  "is_whitespace c =
     (c \<in> {0x09, 0x0A, 0x0B, 0x0C, 0x0D, 0x20, 0xA0, 0x1680, 0x2028, 0x2029, 0x202F,
            0x205F, 0x3000, 0xFEFF}
      \<or> (0x2000 \<le> c \<and> c \<le> 0x200A))"

definition trim :: "js_string \<Rightarrow> js_string" where
  "trim s = rev (dropWhile is_whitespace (rev (dropWhile is_whitespace s)))"

text \<open>The character class \<open>[a-zA-Z0-9_.\-\/]\<close>.\<close>

definition valid_char :: "16 word \<Rightarrow> bool" where
  "valid_char c =
     ((0x61 \<le> c \<and> c \<le> 0x7A) \<or> (0x41 \<le> c \<and> c \<le> 0x5A) \<or> (0x30 \<le> c \<and> c \<le> 0x39)
      \<or> c = 0x5F \<or> c = 0x2E \<or> c = 0x2D \<or> c = 0x2F)"

text \<open>
  \<open>/^[a-zA-Z0-9_.\-\/]+$/.test(s)\<close>: without the \<open>m\<close> flag the anchors are the two
  ends of the string, so the whole string is one or more characters of the class.
\<close>

definition validPattern_test :: "js_string \<Rightarrow> bool" where
  "validPattern_test s = (s \<noteq> [] \<and> list_all valid_char s)"

definition validateNamespace :: "js_string \<Rightarrow> thrown + unit" where
  "validateNamespace namespace =
     (if namespace = [] \<or> length (trim namespace) = 0
      then Inl (JsError (lit ''Namespace cannot be empty''))
      else if length namespace > 255
      then Inl (JsError (lit ''Namespace exceeds maximum length of 255 characters (got ''
                          @ show_nat (length namespace) @ lit '')''))
      else if \<not> validPattern_test namespace
      then Inl (JsError (lit ''Namespace \"'' @ namespace @ lit ''\" contains invalid characters. ''
                          @ lit ''Only alphanumeric characters, hyphens, underscores, periods, and forward slashes are allowed.''))
      else Inr ())"

section \<open>parseMetricData\<close>

text \<open>
  The \<open>MetricDatum\<close> the loop builds. \<open>MetricName\<close> is whatever truthy value the
  input had; \<open>Dimensions\<close> is only ever set to an array, kept as the list of its
  elements; \<open>Timestamp\<close> is the \<open>Date\<close> the runtime built.
\<close>

record 'd MetricDatum =
  MetricName :: json
  Value :: "json option"
  Unit :: "json option"
  Timestamp :: "'d option"
  Dimensions :: "json list option"
  Values :: "json option"
  Counts :: "json option"
  StatisticValues :: "json option"

text \<open>\<open>if (data.Timestamp) metric.Timestamp = new Date(data.Timestamp)\<close>\<close>

definition add_timestamp ::
  "'d runtime \<Rightarrow> json \<Rightarrow> 'd MetricDatum \<Rightarrow> thrown + 'd MetricDatum" where
  "add_timestamp rt data metric =
     (case field data (lit ''Timestamp'') of
        None \<Rightarrow> Inr metric
      | Some t \<Rightarrow>
          if truthy t
          then (case new_Date rt t of
                  Inl m \<Rightarrow> Inl (JsError m)
                | Inr d \<Rightarrow> Inr (metric\<lparr>Timestamp := Some d\<rparr>))
          else Inr metric)"

text \<open>
  \<open>if (data.Dimensions && Array.isArray(data.Dimensions))\<close>: an array is always truthy.
  The message of the error interpolates \<open>data.MetricName\<close>, which can itself throw.
\<close>

definition add_dimensions ::
  "'d runtime \<Rightarrow> json \<Rightarrow> json \<Rightarrow> 'd MetricDatum \<Rightarrow> thrown + 'd MetricDatum" where
  "add_dimensions rt name data metric =
     (case field data (lit ''Dimensions'') of
        Some (JArr ds) \<Rightarrow>
          if length ds > 30
          then (case to_String (Number_toString rt) name of
                  Inl e \<Rightarrow> Inl e
                | Inr n \<Rightarrow>
                    Inl (JsError (lit ''Metric \"'' @ n
                           @ lit ''\" has too many dimensions (max 30, got ''
                           @ show_nat (length ds) @ lit '')'')))
          else Inr (metric\<lparr>Dimensions := Some ds\<rparr>)
      | _ \<Rightarrow> Inr metric)"

text \<open>
  The unconditional copies, one definition for each commented block of the loop body:
  \<open>if (data.Value !== undefined) metric.Value = data.Value\<close>, and
  \<open>if (data.F) metric.F = data.F\<close> for \<open>Unit\<close>, \<open>Values\<close>, \<open>Counts\<close> and
  \<open>StatisticValues\<close>.
\<close>

definition add_value :: "json \<Rightarrow> 'd MetricDatum \<Rightarrow> 'd MetricDatum" where
  "add_value data metric =
     (if field data (lit ''Value'') \<noteq> None
      then metric\<lparr>Value := field data (lit ''Value'')\<rparr> else metric)"

definition add_unit :: "json \<Rightarrow> 'd MetricDatum \<Rightarrow> 'd MetricDatum" where
  "add_unit data metric =
     (if truthy_opt (field data (lit ''Unit''))
      then metric\<lparr>Unit := field data (lit ''Unit'')\<rparr> else metric)"

definition add_values :: "json \<Rightarrow> 'd MetricDatum \<Rightarrow> 'd MetricDatum" where
  "add_values data metric =
     (if truthy_opt (field data (lit ''Values''))
      then metric\<lparr>Values := field data (lit ''Values'')\<rparr> else metric)"

definition add_counts :: "json \<Rightarrow> 'd MetricDatum \<Rightarrow> 'd MetricDatum" where
  "add_counts data metric =
     (if truthy_opt (field data (lit ''Counts''))
      then metric\<lparr>Counts := field data (lit ''Counts'')\<rparr> else metric)"

definition add_statistic_values :: "json \<Rightarrow> 'd MetricDatum \<Rightarrow> 'd MetricDatum" where
  "add_statistic_values data metric =
     (if truthy_opt (field data (lit ''StatisticValues''))
      then metric\<lparr>StatisticValues := field data (lit ''StatisticValues'')\<rparr> else metric)"

text \<open>
  The last check of the body: a metric with \<open>Value\<close> undefined and \<open>Values\<close> and
  \<open>StatisticValues\<close> falsy is refused.
\<close>

definition check_data_point ::
  "'d runtime \<Rightarrow> json \<Rightarrow> 'd MetricDatum \<Rightarrow> thrown + 'd MetricDatum" where
  "check_data_point rt name metric =
     (if Value metric = None \<and> \<not> truthy_opt (Values metric)
         \<and> \<not> truthy_opt (StatisticValues metric)
      then (case to_String (Number_toString rt) name of
              Inl e \<Rightarrow> Inl e
            | Inr n \<Rightarrow>
                Inl (JsError (lit ''Metric \"'' @ n
                       @ lit ''\" must have at least one of: Value, Values, or StatisticValues'')))
      else Inr metric)"

text \<open>The body of the loop, for the element \<open>data\<close> at index \<open>i\<close>.\<close>

definition parse_metric :: "'d runtime \<Rightarrow> nat \<Rightarrow> json \<Rightarrow> thrown + 'd MetricDatum" where
  "parse_metric rt i data =
     (case get_prop data (lit ''MetricName'') of
        Inl e \<Rightarrow> Inl e
      | Inr None \<Rightarrow>
          Inl (JsError (lit ''Metric at index '' @ show_nat i
                 @ lit '' is missing required field '' @ [0x27] @ lit ''MetricName'' @ [0x27]))
      | Inr (Some name) \<Rightarrow>
          if \<not> truthy name
          then Inl (JsError (lit ''Metric at index '' @ show_nat i
                      @ lit '' is missing required field '' @ [0x27] @ lit ''MetricName'' @ [0x27]))
          else
            (case add_timestamp rt data
                    (add_unit data
                      (add_value data
                        \<lparr>MetricName = name, Value = None, Unit = None, Timestamp = None,
                         Dimensions = None, Values = None, Counts = None,
                         StatisticValues = None\<rparr>)) of
               Inl e \<Rightarrow> Inl e
             | Inr metric \<Rightarrow>
                 (case add_dimensions rt name data metric of
                    Inl e \<Rightarrow> Inl e
                  | Inr metric \<Rightarrow>
                      check_data_point rt name
                        (add_statistic_values data (add_counts data (add_values data metric))))))"

text \<open>
  The \<open>for\<close> loop: \<open>i\<close> is the index of the first element still to do, \<open>metrics\<close> the
  array pushed to so far. The first throw ends it.
\<close>

fun parse_loop ::
  "'d runtime \<Rightarrow> nat \<Rightarrow> json list \<Rightarrow> 'd MetricDatum list \<Rightarrow> thrown + 'd MetricDatum list" where
  "parse_loop rt i [] metrics = Inr metrics"
| "parse_loop rt i (data # rest) metrics =
     (case parse_metric rt i data of
        Inl e \<Rightarrow> Inl e
      | Inr metric \<Rightarrow> parse_loop rt (Suc i) rest (metrics @ [metric]))"

definition parseMetricData :: "'d runtime \<Rightarrow> js_string \<Rightarrow> thrown + 'd MetricDatum list" where
  "parseMetricData rt metricDataStr =
     (case JSON_parse rt metricDataStr of
        Inl err \<Rightarrow>
          (case error_text rt err of
             Inl e \<Rightarrow> Inl e
           | Inr m \<Rightarrow> Inl (JsError (lit ''Failed to parse metric-data JSON: '' @ m)))
      | Inr (JArr parsedData) \<Rightarrow>
          if length parsedData = 0
          then Inl (JsError (lit ''metric-data array cannot be empty''))
          else if length parsedData > 1000
          then Inl (JsError (lit ''metric-data array exceeds maximum size of 1000 metrics (got ''
                              @ show_nat (length parsedData) @ lit '')''))
          else parse_loop rt 0 parsedData []
      | Inr _ \<Rightarrow> Inl (JsError (lit ''metric-data must be a JSON array'')))"

section \<open>putMetrics\<close>

record 'd PutMetricDataCommand =
  Namespace :: js_string
  MetricData :: "'d MetricDatum list"

record MetricResult =
  success :: bool
  metricsCount :: "nat option"
  error :: "js_string option"

text \<open>
  What a call leaves behind: the lines given to \<open>core.info\<close> and \<open>core.error\<close>, and
  the commands given to \<open>client.send\<close>, both in order. Writing a log line does not
  throw.
\<close>

datatype log_line = Info js_string | Error js_string

record 'd effects =
  logged :: "log_line list"
  requests :: "'d PutMetricDataCommand list"

text \<open>
  The client: \<open>send\<close> either resolves (\<open>None\<close>) or rejects with a thrown value.
  \<open>putMetrics\<close> calls it at most once, so a function of the command is enough.
\<close>

type_synonym 'd client = "'d PutMetricDataCommand \<Rightarrow> thrown option"

definition core_info :: "js_string \<Rightarrow> 'd effects \<Rightarrow> 'd effects" where
  "core_info line fx = fx\<lparr>logged := logged fx @ [Info line]\<rparr>"

definition core_error :: "js_string \<Rightarrow> 'd effects \<Rightarrow> 'd effects" where
  "core_error line fx = fx\<lparr>logged := logged fx @ [Error line]\<rparr>"

definition client_send :: "'d client \<Rightarrow> 'd PutMetricDataCommand \<Rightarrow> 'd effects \<Rightarrow> thrown option \<times> 'd effects" where
  "client_send client command fx = (client command, fx\<lparr>requests := requests fx @ [command]\<rparr>)"

text \<open>\<open>Array.prototype.map\<close> with a callback that can throw.\<close>

fun map_throwing :: "('a \<Rightarrow> thrown + 'b) \<Rightarrow> 'a list \<Rightarrow> thrown + 'b list" where
  "map_throwing g [] = Inr []"
| "map_throwing g (x # xs) =
     (case g x of
        Inl e \<Rightarrow> Inl e
      | Inr y \<Rightarrow> (case map_throwing g xs of Inl e \<Rightarrow> Inl e | Inr ys \<Rightarrow> Inr (y # ys)))"

text \<open>The callback \<open>d => `${d.Name}=${d.Value}`\<close>.\<close>

definition dimension_text :: "(real \<Rightarrow> js_string) \<Rightarrow> json \<Rightarrow> thrown + js_string" where
  "dimension_text f d =
     (case get_prop d (lit ''Name'') of
        Inl e \<Rightarrow> Inl e
      | Inr n \<Rightarrow>
          (case to_String_opt f n of
             Inl e \<Rightarrow> Inl e
           | Inr ns \<Rightarrow>
               (case to_String_opt f (field d (lit ''Value'')) of
                  Inl e \<Rightarrow> Inl e
                | Inr vs \<Rightarrow> Inr (ns @ lit ''='' @ vs))))"

text \<open>The line logged for one metric after the send.\<close>

definition metric_line :: "'d runtime \<Rightarrow> 'd MetricDatum \<Rightarrow> thrown + js_string" where
  "metric_line rt metric =
     (case (case Dimensions metric of
              None \<Rightarrow> Inr []
            | Some ds \<Rightarrow>
                (case map_throwing (dimension_text (Number_toString rt)) ds of
                   Inl e \<Rightarrow> Inl e
                 | Inr parts \<Rightarrow> Inr (lit '' ['' @ join (lit '', '') parts @ lit '']''))) of
        Inl e \<Rightarrow> Inl e
      | Inr dims \<Rightarrow>
          let v = (case Value metric of Some x \<Rightarrow> x | None \<Rightarrow> JStr (lit ''statistic-set''))
          in (case (if truthy_opt (Unit metric)
                    then (case to_String_opt (Number_toString rt) (Unit metric) of
                            Inl e \<Rightarrow> Inl e
                          | Inr u \<Rightarrow> Inr (lit '' '' @ u))
                    else Inr []) of
                Inl e \<Rightarrow> Inl e
              | Inr unit_text \<Rightarrow>
                 (case to_String (Number_toString rt) (MetricName metric) of
                    Inl e \<Rightarrow> Inl e
                  | Inr name_text \<Rightarrow>
                      (case to_String (Number_toString rt) v of
                         Inl e \<Rightarrow> Inl e
                       | Inr value_text \<Rightarrow>
                           Inr (lit ''  - '' @ name_text @ dims @ lit '': ''
                                @ value_text @ unit_text)))))"

fun log_metrics ::
  "'d runtime \<Rightarrow> 'd MetricDatum list \<Rightarrow> 'd effects \<Rightarrow> (thrown + unit) \<times> 'd effects" where
  "log_metrics rt [] fx = (Inr (), fx)"
| "log_metrics rt (metric # rest) fx =
     (case metric_line rt metric of
        Inl e \<Rightarrow> (Inl e, fx)
      | Inr line \<Rightarrow> log_metrics rt rest (core_info line fx))"

text \<open>
  The \<open>try\<close> block, its effects threaded through: what it returns or throws, and the
  effects up to that point.
\<close>

definition putMetrics_try ::
  "'d runtime \<Rightarrow> 'd client \<Rightarrow> js_string \<Rightarrow> js_string \<Rightarrow> (thrown + MetricResult) \<times> 'd effects" where
  "putMetrics_try rt client namespace metricDataStr =
     (let fx = \<lparr>logged = [], requests = []\<rparr> in
      (case validateNamespace namespace of
         Inl e \<Rightarrow> (Inl e, fx)
       | Inr _ \<Rightarrow>
          (let fx = core_info (lit ''Parsing metric data...'') fx in
           (case parseMetricData rt metricDataStr of
              Inl e \<Rightarrow> (Inl e, fx)
            | Inr metricData \<Rightarrow>
               (let fx = core_info (lit ''Publishing '' @ show_nat (length metricData)
                                   @ lit '' metric(s) to namespace \"'' @ namespace @ lit ''\"'') fx;
                    command = \<lparr>Namespace = namespace, MetricData = metricData\<rparr>
                in (case client_send client command fx of
                      (Some e, fx) \<Rightarrow> (Inl e, fx)
                    | (None, fx) \<Rightarrow>
                       (let fx = core_info ([0x2713] @ lit '' Metrics published successfully'') fx
                        in (case log_metrics rt metricData fx of
                              (Inl e, fx) \<Rightarrow> (Inl e, fx)
                            | (Inr _, fx) \<Rightarrow>
                               (Inr \<lparr>success = True, metricsCount = Some (length metricData),
                                     error = None\<rparr>, fx)))))))))"

text \<open>
  The whole function: the \<open>catch\<close> block turns a thrown value into a failure result.
  \<open>Inl\<close> in the result is a rejection of the promise \<open>putMetrics\<close> returns.
\<close>

definition putMetrics ::
  "'d runtime \<Rightarrow> 'd client \<Rightarrow> js_string \<Rightarrow> js_string \<Rightarrow> (thrown + MetricResult) \<times> 'd effects" where
  "putMetrics rt client namespace metricDataStr =
     (case putMetrics_try rt client namespace metricDataStr of
        (Inr result, fx) \<Rightarrow> (Inr result, fx)
      | (Inl err, fx) \<Rightarrow>
          (case error_text rt err of
             Inl e \<Rightarrow> (Inl e, fx)
           | Inr errorMessage \<Rightarrow>
               (Inr \<lparr>success = False, metricsCount = None, error = Some errorMessage\<rparr>,
                core_error (lit ''Failed to put metrics: '' @ errorMessage) fx)))"

section \<open>Input records as the interface declares them\<close>

text \<open>
  The shape \<open>MetricDataInput\<close> declares for an element of the array, read together
  with the limits the parser enforces: an object with a non-empty string \<open>MetricName\<close>;
  when present, \<open>Value\<close> a number, \<open>Unit\<close> and \<open>Timestamp\<close> non-empty strings (a
  unit name, a timestamp text), \<open>Dimensions\<close> an array of at most 30 entries,
  \<open>Values\<close> and \<open>Counts\<close> arrays, \<open>StatisticValues\<close> an object; and at least one
  of \<open>Value\<close>, \<open>Values\<close>, \<open>StatisticValues\<close> present.
\<close>

fun nonempty_string :: "json \<Rightarrow> bool" where
  "nonempty_string (JStr s) = (s \<noteq> [])"
| "nonempty_string v = False"

fun is_number :: "json \<Rightarrow> bool" where
  "is_number (JNum n) = True"
| "is_number v = False"

fun is_array :: "json \<Rightarrow> bool" where
  "is_array (JArr xs) = True"
| "is_array v = False"

fun is_object :: "json \<Rightarrow> bool" where
  "is_object (JObj kvs) = True"
| "is_object v = False"

fun array_upto :: "nat \<Rightarrow> json \<Rightarrow> bool" where
  "array_upto n (JArr xs) = (length xs \<le> n)"
| "array_upto n v = False"

fun absent_or :: "(json \<Rightarrow> bool) \<Rightarrow> json option \<Rightarrow> bool" where
  "absent_or P None = True"
| "absent_or P (Some v) = P v"

definition valid_record :: "json \<Rightarrow> bool" where
  "valid_record x =
     (is_object x
      \<and> \<not> absent_or (\<lambda>v. \<not> nonempty_string v) (field x (lit ''MetricName''))
      \<and> absent_or is_number (field x (lit ''Value''))
      \<and> absent_or nonempty_string (field x (lit ''Unit''))
      \<and> absent_or nonempty_string (field x (lit ''Timestamp''))
      \<and> absent_or (array_upto 30) (field x (lit ''Dimensions''))
      \<and> absent_or is_array (field x (lit ''Values''))
      \<and> absent_or is_array (field x (lit ''Counts''))
      \<and> absent_or is_object (field x (lit ''StatisticValues''))
      \<and> (field x (lit ''Value'') \<noteq> None \<or> field x (lit ''Values'') \<noteq> None
           \<or> field x (lit ''StatisticValues'') \<noteq> None))"

text \<open>
  An output record carries the content of an input record: every field of the input is
  in the output with the same value, the timestamp as the \<open>Date\<close> built from its text,
  and the output has no field the input lacks.
\<close>

definition same_content :: "'d runtime \<Rightarrow> json \<Rightarrow> 'd MetricDatum \<Rightarrow> bool" where
  "same_content rt x m =
     (field x (lit ''MetricName'') = Some (MetricName m)
      \<and> field x (lit ''Value'') = Value m
      \<and> field x (lit ''Unit'') = Unit m
      \<and> (case field x (lit ''Timestamp'') of
            None \<Rightarrow> Timestamp m = None
          | Some t \<Rightarrow> (case Timestamp m of None \<Rightarrow> False | Some d \<Rightarrow> new_Date rt t = Inr d))
      \<and> field x (lit ''Dimensions'') = map_option JArr (Dimensions m)
      \<and> field x (lit ''Values'') = Values m
      \<and> field x (lit ''Counts'') = Counts m
      \<and> field x (lit ''StatisticValues'') = StatisticValues m)"

text \<open>
  A dimension as the interface declares it: an object with string \<open>Name\<close> and
  \<open>Value\<close>.
\<close>

fun is_string :: "json option \<Rightarrow> bool" where
  "is_string (Some (JStr s)) = True"
| "is_string v = False"

definition declared_dimension :: "json \<Rightarrow> bool" where
  "declared_dimension d =
     (is_object d \<and> is_string (field d (lit ''Name'')) \<and> is_string (field d (lit ''Value'')))"

fun declared_dimensions :: "json \<Rightarrow> bool" where
  "declared_dimensions (JArr ds) = list_all declared_dimension ds"
| "declared_dimensions v = False"

section \<open>Worked examples\<close>

text \<open>
  A runtime for the examples: \<open>JSON.parse\<close> knows the texts of a table and reports a
  syntax error for any other text, a \<open>Date\<close> is stood for by the value it was built
  from, and a number is rendered by the decimal of its integer part (the examples only
  log natural numbers).
\<close>

definition table_runtime :: "(js_string \<times> json) list \<Rightarrow> json runtime" where
  "table_runtime table =
     \<lparr>JSON_parse = (\<lambda>s. case map_of table s of
                             Some v \<Rightarrow> Inr v
                           | None \<Rightarrow> Inl (JsError (lit ''Unexpected token''))),
      new_Date = (\<lambda>v. Inr v),
      Number_toString = (\<lambda>n. show_nat (nat \<lfloor>n\<rfloor>))\<rparr>"

definition batch_text :: js_string where
  "batch_text = lit ''[{\"MetricName\":\"Latency\",\"Value\":12.5,\"Unit\":\"Milliseconds\",\"Timestamp\":\"2024-01-01T00:00:00Z\",\"Dimensions\":[{\"Name\":\"Env\",\"Value\":\"prod\"}]},{\"MetricName\":\"Load\",\"Values\":[1,2],\"Counts\":[3,1]}]''"

definition batch :: "json list" where
  "batch =
     [JObj [(lit ''MetricName'', JStr (lit ''Latency'')), (lit ''Value'', JNum 12.5),
            (lit ''Unit'', JStr (lit ''Milliseconds'')),
            (lit ''Timestamp'', JStr (lit ''2024-01-01T00:00:00Z'')),
            (lit ''Dimensions'', JArr [JObj [(lit ''Name'', JStr (lit ''Env'')),
                                             (lit ''Value'', JStr (lit ''prod''))]])],
      JObj [(lit ''MetricName'', JStr (lit ''Load'')), (lit ''Values'', JArr [JNum 1, JNum 2]),
            (lit ''Counts'', JArr [JNum 3, JNum 1])]]"




text \<open>A record with \<open>Counts\<close> and no \<open>Values\<close>, a record with neither data field.\<close>

definition counts_without_values_text :: js_string where
  "counts_without_values_text = lit ''[{\"MetricName\":\"X\",\"Value\":1,\"Counts\":[2]}]''"

definition counts_without_values :: json where
  "counts_without_values =
     JObj [(lit ''MetricName'', JStr (lit ''X'')), (lit ''Value'', JNum 1),
           (lit ''Counts'', JArr [JNum 2])]"

definition unpaired_counts :: json where
  "unpaired_counts =
     JObj [(lit ''MetricName'', JStr (lit ''X'')), (lit ''Values'', JArr [JNum 1, JNum 2]),
           (lit ''Counts'', JArr [JNum 3])]"

definition no_data_field :: json where
  "no_data_field = JObj [(lit ''MetricName'', JStr (lit ''X'')), (lit ''Unit'', JStr (lit ''Count''))]"

text \<open>
  The scenario of the specification, one metric \<open>X\<close> of value 1, and the same metric
  with a \<open>Dimensions\<close> array whose only entry is \<open>null\<close>; a client that accepts every
  command and one that rejects every command with an \<open>Error\<close> of the given message.
\<close>

definition scenario_text :: js_string where
  "scenario_text = lit ''[{\"MetricName\":\"X\",\"Value\":1}]''"

definition scenario_record :: json where
  "scenario_record = JObj [(lit ''MetricName'', JStr (lit ''X'')), (lit ''Value'', JNum 1)]"

definition null_dimension_text :: js_string where
  "null_dimension_text = lit ''[{\"MetricName\":\"X\",\"Value\":1,\"Dimensions\":[null]}]''"

definition null_dimension_record :: json where
  "null_dimension_record =
     JObj [(lit ''MetricName'', JStr (lit ''X'')), (lit ''Value'', JNum 1),
           (lit ''Dimensions'', JArr [JNull])]"

definition accepting_client :: "'d client" where
  "accepting_client command = None"

definition rejecting_client :: "js_string \<Rightarrow> 'd client" where
  "rejecting_client message command = Some (JsError message)"



section \<open>Properties of validateNamespace\<close>

lemma trim_Nil_iff: "(trim s = []) = list_all is_whitespace s"
proof
  assume "trim s = []"
  then have *: "dropWhile is_whitespace (rev (dropWhile is_whitespace s)) = []"
    by (simp add: trim_def)
  show "list_all is_whitespace s"
  proof (rule ccontr)
    assume "\<not> list_all is_whitespace s"
    then have ne: "dropWhile is_whitespace s \<noteq> []"
      by (simp add: list_all_iff)
    then have "\<not> is_whitespace (hd (dropWhile is_whitespace s))"
      by (rule hd_dropWhile)
    moreover have "hd (dropWhile is_whitespace s) \<in> set (rev (dropWhile is_whitespace s))"
      using ne by simp
    ultimately have "\<not> list_all is_whitespace (rev (dropWhile is_whitespace s))"
      by (auto simp: list_all_iff)
    with * show False by (simp add: list_all_iff)
  qed
next
  assume "list_all is_whitespace s"
  then have d: "dropWhile is_whitespace s = []" by (simp add: list_all_iff)
  show "trim s = []" unfolding trim_def d by simp
qed

lemma valid_char_not_whitespace: "valid_char c \<Longrightarrow> \<not> is_whitespace c"
  by (auto simp: valid_char_def is_whitespace_def word_le_nat_alt)

lemma valid_not_all_whitespace:
  "s \<noteq> [] \<Longrightarrow> list_all valid_char s \<Longrightarrow> \<not> list_all is_whitespace s"
  by (cases s) (auto dest: valid_char_not_whitespace)

lemma validateNamespace_Inr_iff:
  "(validateNamespace ns = Inr ()) =
     (ns \<noteq> [] \<and> \<not> list_all is_whitespace ns \<and> length ns \<le> 255 \<and> list_all valid_char ns)"
  by (auto simp: validateNamespace_def validPattern_test_def trim_Nil_iff)

text \<open>
  Claim C2. \<open>validateNamespace\<close> returns normally exactly when the namespace is
  non-empty, not made of whitespace only, at most 255 code units long and made only of
  characters in \<open>[A-Za-z0-9_.\-/]\<close>. In particular 255 characters of the class pass
  and any 256 characters fail, \<open>My/App_1.0\<close> passes, and a namespace with a space or a
  \<open>#\<close> in it fails.
\<close>

theorem validateNamespace_spec:
  "((validateNamespace ns = Inr ()) =
      (ns \<noteq> [] \<and> \<not> list_all is_whitespace ns \<and> length ns \<le> 255 \<and> list_all valid_char ns))
   \<and> (length ns = 255 \<and> list_all valid_char ns \<longrightarrow> validateNamespace ns = Inr ())
   \<and> (length ns = 256 \<longrightarrow> isl (validateNamespace ns))
   \<and> validateNamespace (lit ''My/App_1.0'') = Inr ()
   \<and> (0x20 \<in> set ns \<or> 0x23 \<in> set ns \<longrightarrow> isl (validateNamespace ns))"
proof (intro conjI impI)
  show "(validateNamespace ns = Inr ()) =
      (ns \<noteq> [] \<and> \<not> list_all is_whitespace ns \<and> length ns \<le> 255 \<and> list_all valid_char ns)"
    by (rule validateNamespace_Inr_iff)
next
  assume a: "length ns = 255 \<and> list_all valid_char ns"
  then have "ns \<noteq> []" by auto
  with a show "validateNamespace ns = Inr ()"
    by (simp add: validateNamespace_Inr_iff valid_not_all_whitespace)
next
  assume "length ns = 256"
  then have "validateNamespace ns \<noteq> Inr ()" by (simp add: validateNamespace_Inr_iff)
  then show "isl (validateNamespace ns)" by (cases "validateNamespace ns") auto
next
  show "validateNamespace (lit ''My/App_1.0'') = Inr ()"
    by (simp add: validateNamespace_Inr_iff lit_def valid_char_def is_whitespace_def)
next
  assume "0x20 \<in> set ns \<or> 0x23 \<in> set ns"
  moreover have "\<not> valid_char 0x20" and "\<not> valid_char 0x23"
    by (simp_all add: valid_char_def)
  ultimately have "\<not> list_all valid_char ns"
    by (auto simp: list_all_iff)
  then have "validateNamespace ns \<noteq> Inr ()" by (simp add: validateNamespace_Inr_iff)
  then show "isl (validateNamespace ns)" by (cases "validateNamespace ns") auto
qed

theorem validateNamespace_spec_witness:
  "validateNamespace (replicate 255 0x61) = Inr ()
   \<and> isl (validateNamespace (replicate 256 0x61))
   \<and> isl (validateNamespace (lit ''My App''))
   \<and> isl (validateNamespace (lit ''My#App''))
   \<and> validateNamespace (lit '' '') \<noteq> Inr ()
   \<and> validateNamespace [] \<noteq> Inr ()"
  using validateNamespace_spec [of "replicate 255 0x61"]
    validateNamespace_spec [of "replicate 256 0x61"]
    validateNamespace_spec [of "lit ''My App''"]
    validateNamespace_spec [of "lit ''My#App''"]
    validateNamespace_spec [of "lit '' ''"]
    validateNamespace_spec [of "[]"]
  by (simp add: lit_def valid_char_def list_all_iff is_whitespace_def)

section \<open>Properties of parseMetricData\<close>

lemma parse_loop_Inr_iff:
  "(parse_loop rt i xs acc = Inr ms) =
     (\<exists>ms'. ms = acc @ ms' \<and> length ms' = length xs
        \<and> (\<forall>k<length xs. parse_metric rt (i + k) (xs ! k) = Inr (ms' ! k)))"
proof (induction xs arbitrary: i acc)
  case Nil
  then show ?case by auto
next
  case (Cons x xs)
  show ?case
  proof (cases "parse_metric rt i x")
    case (Inl e)
    then show ?thesis by (auto simp: dest: spec[of _ 0])
  next
    case (Inr m)
    show ?thesis
    proof
      assume "parse_loop rt i (x # xs) acc = Inr ms"
      then have "parse_loop rt (Suc i) xs (acc @ [m]) = Inr ms" using Inr by simp
      then obtain ms' where ms': "ms = (acc @ [m]) @ ms'" "length ms' = length xs"
        "\<forall>k<length xs. parse_metric rt (Suc i + k) (xs ! k) = Inr (ms' ! k)"
        using Cons.IH by blast
      have "\<forall>k<length (x # xs). parse_metric rt (i + k) ((x # xs) ! k) = Inr ((m # ms') ! k)"
      proof (intro allI impI)
        fix k assume "k < length (x # xs)"
        then show "parse_metric rt (i + k) ((x # xs) ! k) = Inr ((m # ms') ! k)"
          using Inr ms'(3) by (cases k) auto
      qed
      with ms'(1,2) show "\<exists>ms'. ms = acc @ ms' \<and> length ms' = length (x # xs)
        \<and> (\<forall>k<length (x # xs). parse_metric rt (i + k) ((x # xs) ! k) = Inr (ms' ! k))"
        by (intro exI[of _ "m # ms'"]) simp
    next
      assume "\<exists>ms'. ms = acc @ ms' \<and> length ms' = length (x # xs)
        \<and> (\<forall>k<length (x # xs). parse_metric rt (i + k) ((x # xs) ! k) = Inr (ms' ! k))"
      then obtain ms' where ms': "ms = acc @ ms'" "length ms' = length (x # xs)"
        "\<forall>k<length (x # xs). parse_metric rt (i + k) ((x # xs) ! k) = Inr (ms' ! k)"
        by blast
      from ms'(2) obtain m' rest where mr: "ms' = m' # rest" by (cases ms') auto
      from ms'(3) have "parse_metric rt (i + 0) ((x # xs) ! 0) = Inr (ms' ! 0)" by blast
      with Inr mr have mm: "m' = m" by simp
      have "\<forall>k<length xs. parse_metric rt (Suc i + k) (xs ! k) = Inr (rest ! k)"
      proof (intro allI impI)
        fix k assume "k < length xs"
        then have "parse_metric rt (i + Suc k) ((x # xs) ! Suc k) = Inr (ms' ! Suc k)"
          using ms'(3) by auto
        then show "parse_metric rt (Suc i + k) (xs ! k) = Inr (rest ! k)"
          using mr by simp
      qed
      moreover have "ms = (acc @ [m]) @ rest" "length rest = length xs"
        using ms'(1,2) mr mm by simp_all
      ultimately have "parse_loop rt (Suc i) xs (acc @ [m]) = Inr ms"
        using Cons.IH[of "Suc i" "acc @ [m]"] by blast
      then show "parse_loop rt i (x # xs) acc = Inr ms"
        using Inr by simp
    qed
  qed
qed



lemma add_value_fields:
  "Value (add_value x m) = (if field x (lit ''Value'') \<noteq> None then field x (lit ''Value'') else Value m)"
  "MetricName (add_value x m) = MetricName m" "Unit (add_value x m) = Unit m"
  "Timestamp (add_value x m) = Timestamp m" "Dimensions (add_value x m) = Dimensions m"
  "Values (add_value x m) = Values m" "Counts (add_value x m) = Counts m"
  "StatisticValues (add_value x m) = StatisticValues m"
  by (simp_all add: add_value_def)

lemma add_unit_fields:
  "Unit (add_unit x m) = (if truthy_opt (field x (lit ''Unit'')) then field x (lit ''Unit'') else Unit m)"
  "MetricName (add_unit x m) = MetricName m" "Value (add_unit x m) = Value m"
  "Timestamp (add_unit x m) = Timestamp m" "Dimensions (add_unit x m) = Dimensions m"
  "Values (add_unit x m) = Values m" "Counts (add_unit x m) = Counts m"
  "StatisticValues (add_unit x m) = StatisticValues m"
  by (simp_all add: add_unit_def)

lemma add_values_fields:
  "Values (add_values x m) = (if truthy_opt (field x (lit ''Values'')) then field x (lit ''Values'') else Values m)"
  "MetricName (add_values x m) = MetricName m" "Value (add_values x m) = Value m"
  "Unit (add_values x m) = Unit m"
  "Timestamp (add_values x m) = Timestamp m" "Dimensions (add_values x m) = Dimensions m"
  "Counts (add_values x m) = Counts m"
  "StatisticValues (add_values x m) = StatisticValues m"
  by (simp_all add: add_values_def)

lemma add_counts_fields:
  "Counts (add_counts x m) = (if truthy_opt (field x (lit ''Counts'')) then field x (lit ''Counts'') else Counts m)"
  "MetricName (add_counts x m) = MetricName m" "Value (add_counts x m) = Value m"
  "Unit (add_counts x m) = Unit m"
  "Timestamp (add_counts x m) = Timestamp m" "Dimensions (add_counts x m) = Dimensions m"
  "Values (add_counts x m) = Values m"
  "StatisticValues (add_counts x m) = StatisticValues m"
  by (simp_all add: add_counts_def)

lemma add_statistic_values_fields:
  "StatisticValues (add_statistic_values x m) =
     (if truthy_opt (field x (lit ''StatisticValues'')) then field x (lit ''StatisticValues'')
      else StatisticValues m)"
  "MetricName (add_statistic_values x m) = MetricName m" "Value (add_statistic_values x m) = Value m"
  "Unit (add_statistic_values x m) = Unit m"
  "Timestamp (add_statistic_values x m) = Timestamp m"
  "Dimensions (add_statistic_values x m) = Dimensions m"
  "Values (add_statistic_values x m) = Values m"
  "Counts (add_statistic_values x m) = Counts m"
  by (simp_all add: add_statistic_values_def)

lemmas copy_fields = add_value_fields add_unit_fields add_values_fields add_counts_fields
  add_statistic_values_fields

lemma add_timestamp_Inr:
  assumes "add_timestamp rt x m = Inr m'"
  shows "MetricName m' = MetricName m" "Value m' = Value m" "Unit m' = Unit m"
    "Dimensions m' = Dimensions m" "Values m' = Values m" "Counts m' = Counts m"
    "StatisticValues m' = StatisticValues m"
    "Timestamp m' = (case field x (lit ''Timestamp'') of
                       None \<Rightarrow> Timestamp m
                     | Some t \<Rightarrow> if truthy t then
                         (case new_Date rt t of Inl e \<Rightarrow> None | Inr d \<Rightarrow> Some d) else Timestamp m)"
    "\<not> (case field x (lit ''Timestamp'') of None \<Rightarrow> False
         | Some t \<Rightarrow> truthy t \<and> isl (new_Date rt t))"
  using assms
  by (auto simp: add_timestamp_def split: option.splits if_splits sum.splits)

lemma add_dimensions_Inr:
  assumes "add_dimensions rt n x m = Inr m'"
  shows "MetricName m' = MetricName m" "Value m' = Value m" "Unit m' = Unit m"
    "Timestamp m' = Timestamp m" "Values m' = Values m" "Counts m' = Counts m"
    "StatisticValues m' = StatisticValues m"
    "Dimensions m' = (case field x (lit ''Dimensions'') of
                        Some (JArr ds) \<Rightarrow> Some ds | _ \<Rightarrow> Dimensions m)"
    "(case field x (lit ''Dimensions'') of Some (JArr ds) \<Rightarrow> length ds \<le> 30 | _ \<Rightarrow> True)"
  using assms
  by (auto simp: add_dimensions_def split: option.splits if_splits sum.splits json.splits)

lemma check_data_point_Inr:
  "(check_data_point rt n m = Inr m') =
     (m' = m \<and> (Value m \<noteq> None \<or> truthy_opt (Values m) \<or> truthy_opt (StatisticValues m)))"
  by (auto simp: check_data_point_def split: sum.splits)

text \<open>What a metric that the loop body accepts looks like, field by field.\<close>

lemma parse_metric_Inr:
  assumes "parse_metric rt i x = Inr m"
  shows "field x (lit ''MetricName'') = Some (MetricName m)"
    and "truthy (MetricName m)"
    and "Value m = field x (lit ''Value'')"
    and "Unit m = (if truthy_opt (field x (lit ''Unit'')) then field x (lit ''Unit'') else None)"
    and "Timestamp m = (case field x (lit ''Timestamp'') of
                       None \<Rightarrow> None
                     | Some t \<Rightarrow> if truthy t then
                         (case new_Date rt t of Inl e \<Rightarrow> None | Inr d \<Rightarrow> Some d) else None)"
    and "\<not> (case field x (lit ''Timestamp'') of None \<Rightarrow> False
         | Some t \<Rightarrow> truthy t \<and> isl (new_Date rt t))"
    and "Dimensions m = (case field x (lit ''Dimensions'') of
                        Some (JArr ds) \<Rightarrow> Some ds | _ \<Rightarrow> None)"
    and "(case field x (lit ''Dimensions'') of Some (JArr ds) \<Rightarrow> length ds \<le> 30 | _ \<Rightarrow> True)"
    and "Values m = (if truthy_opt (field x (lit ''Values'')) then field x (lit ''Values'') else None)"
    and "Counts m = (if truthy_opt (field x (lit ''Counts'')) then field x (lit ''Counts'') else None)"
    and "StatisticValues m = (if truthy_opt (field x (lit ''StatisticValues''))
                              then field x (lit ''StatisticValues'') else None)"
    and "Value m \<noteq> None \<or> truthy_opt (Values m) \<or> truthy_opt (StatisticValues m)"
proof -
  from assms obtain name where nm: "field x (lit ''MetricName'') = Some name" "truthy name"
    and nn: "x \<noteq> JNull"
    by (auto simp: parse_metric_def get_prop_def split: if_splits option.splits)
  let ?m0 = "\<lparr>MetricName = name, Value = None, Unit = None, Timestamp = None,
               Dimensions = None, Values = None, Counts = None,
               StatisticValues = None\<rparr> :: 'a MetricDatum"
  from assms nm nn obtain m3 m4 where
    m3: "add_timestamp rt x (add_unit x (add_value x ?m0)) = Inr m3"
    and m4: "add_dimensions rt name x m3 = Inr m4"
    and ck: "check_data_point rt name
               (add_statistic_values x (add_counts x (add_values x m4))) = Inr m"
    by (auto simp: parse_metric_def get_prop_def split: sum.splits)
  from ck have m: "m = add_statistic_values x (add_counts x (add_values x m4))"
    and some: "Value m \<noteq> None \<or> truthy_opt (Values m) \<or> truthy_opt (StatisticValues m)"
    by (auto simp: check_data_point_Inr)
  note t = add_timestamp_Inr[OF m3] and d = add_dimensions_Inr[OF m4]
  show "field x (lit ''MetricName'') = Some (MetricName m)"
    by (simp add: m copy_fields t d nm)
  show "truthy (MetricName m)" by (simp add: m copy_fields t d nm)
  show "Value m = field x (lit ''Value'')" by (simp add: m copy_fields t d)
  show "Unit m = (if truthy_opt (field x (lit ''Unit'')) then field x (lit ''Unit'') else None)"
    by (simp add: m copy_fields t d)
  show "Timestamp m = (case field x (lit ''Timestamp'') of
                       None \<Rightarrow> None
                     | Some t \<Rightarrow> if truthy t then
                         (case new_Date rt t of Inl e \<Rightarrow> None | Inr d \<Rightarrow> Some d) else None)"
    by (simp add: m copy_fields t d split: option.splits)
  show "\<not> (case field x (lit ''Timestamp'') of None \<Rightarrow> False
         | Some t \<Rightarrow> truthy t \<and> isl (new_Date rt t))"
    by (rule t)
  show "Dimensions m = (case field x (lit ''Dimensions'') of
                        Some (JArr ds) \<Rightarrow> Some ds | _ \<Rightarrow> None)"
    by (simp add: m copy_fields t d split: option.splits json.splits)
  show "(case field x (lit ''Dimensions'') of Some (JArr ds) \<Rightarrow> length ds \<le> 30 | _ \<Rightarrow> True)"
    by (rule d)
  show "Values m = (if truthy_opt (field x (lit ''Values'')) then field x (lit ''Values'') else None)"
    by (simp add: m copy_fields t d)
  show "Counts m = (if truthy_opt (field x (lit ''Counts'')) then field x (lit ''Counts'') else None)"
    by (simp add: m copy_fields t d)
  show "StatisticValues m = (if truthy_opt (field x (lit ''StatisticValues''))
                              then field x (lit ''StatisticValues'') else None)"
    by (simp add: m copy_fields t d)
  show "Value m \<noteq> None \<or> truthy_opt (Values m) \<or> truthy_opt (StatisticValues m)"
    by (rule some)
qed


lemma nonempty_string_cases: "nonempty_string v \<Longrightarrow> \<exists>s. v = JStr s \<and> s \<noteq> []"
  by (cases v) auto

lemma array_upto_cases: "array_upto n v \<Longrightarrow> \<exists>ds. v = JArr ds \<and> length ds \<le> n"
  by (cases v) auto

lemma is_array_truthy: "is_array v \<Longrightarrow> truthy v"
  by (cases v) auto

lemma is_object_truthy: "is_object v \<Longrightarrow> truthy v"
  by (cases v) auto

lemma add_timestamp_ok:
  assumes "absent_or nonempty_string (field x (lit ''Timestamp''))"
    and "\<And>t. \<not> isl (new_Date rt (JStr t))"
  shows "\<exists>m'. add_timestamp rt x m = Inr m'"
proof (cases "field x (lit ''Timestamp'')")
  case None
  then show ?thesis by (simp add: add_timestamp_def)
next
  case (Some t)
  with assms(1) obtain s where s: "t = JStr s" "s \<noteq> []"
    using nonempty_string_cases by fastforce
  from assms(2)[of s] obtain d where "new_Date rt (JStr s) = Inr d"
    by (cases "new_Date rt (JStr s)") auto
  with Some s show ?thesis by (simp add: add_timestamp_def)
qed

lemma add_dimensions_ok:
  assumes "absent_or (array_upto 30) (field x (lit ''Dimensions''))"
  shows "\<exists>m'. add_dimensions rt n x m = Inr m'"
proof (cases "field x (lit ''Dimensions'')")
  case None
  then show ?thesis by (simp add: add_dimensions_def)
next
  case (Some v)
  with assms obtain ds where "v = JArr ds" "length ds \<le> 30"
    using array_upto_cases by fastforce
  with Some show ?thesis by (simp add: add_dimensions_def)
qed

lemma absent_or_truthy_id:
  "absent_or P fv \<Longrightarrow> (\<And>v. P v \<Longrightarrow> truthy v) \<Longrightarrow> (if truthy_opt fv then fv else None) = fv"
  by (cases fv) auto

lemma nonempty_string_truthy: "nonempty_string v \<Longrightarrow> truthy v"
  by (cases v) auto

lemma parse_metric_valid:
  assumes v: "valid_record x"
    and nd: "\<And>t. \<not> isl (new_Date rt (JStr t))"
  shows "\<exists>m. parse_metric rt i x = Inr m \<and> same_content rt x m"
proof -
  from v have nn: "x \<noteq> JNull" by (auto simp: valid_record_def)
  from v obtain n where n: "field x (lit ''MetricName'') = Some (JStr n)" "n \<noteq> []"
    by (cases "field x (lit ''MetricName'')") (auto simp: valid_record_def dest: nonempty_string_cases)
  from v have u: "(if truthy_opt (field x (lit ''Unit'')) then field x (lit ''Unit'') else None)
      = field x (lit ''Unit'')"
    by (intro absent_or_truthy_id[where P = nonempty_string])
       (auto simp: valid_record_def nonempty_string_truthy)
  from v have vs: "(if truthy_opt (field x (lit ''Values'')) then field x (lit ''Values'') else None)
      = field x (lit ''Values'')"
    by (intro absent_or_truthy_id[where P = is_array])
       (auto simp: valid_record_def is_array_truthy)
  from v have cs: "(if truthy_opt (field x (lit ''Counts'')) then field x (lit ''Counts'') else None)
      = field x (lit ''Counts'')"
    by (intro absent_or_truthy_id[where P = is_array])
       (auto simp: valid_record_def is_array_truthy)
  from v have ss: "(if truthy_opt (field x (lit ''StatisticValues''))
        then field x (lit ''StatisticValues'') else None) = field x (lit ''StatisticValues'')"
    by (intro absent_or_truthy_id[where P = is_object])
       (auto simp: valid_record_def is_object_truthy)
  let ?m0 = "\<lparr>MetricName = JStr n, Value = None, Unit = None, Timestamp = None,
               Dimensions = None, Values = None, Counts = None,
               StatisticValues = None\<rparr> :: 'a MetricDatum"
  from v nd obtain m3 where m3: "add_timestamp rt x (add_unit x (add_value x ?m0)) = Inr m3"
    using add_timestamp_ok[of x rt] by (auto simp: valid_record_def)
  from v obtain m4 where m4: "add_dimensions rt (JStr n) x m3 = Inr m4"
    using add_dimensions_ok[of x rt "JStr n" m3] by (auto simp: valid_record_def)
  let ?m = "add_statistic_values x (add_counts x (add_values x m4))"
  note t = add_timestamp_Inr[OF m3] and d = add_dimensions_Inr[OF m4]
  have some: "field x (lit ''Value'') \<noteq> None \<or> field x (lit ''Values'') \<noteq> None
      \<or> field x (lit ''StatisticValues'') \<noteq> None"
    using v by (simp add: valid_record_def)
  have "Value ?m = field x (lit ''Value'')" by (simp add: copy_fields t d)
  moreover have "Values ?m = field x (lit ''Values'')"
    using vs by (auto simp: copy_fields t d split: if_splits)
  moreover have "StatisticValues ?m = field x (lit ''StatisticValues'')"
    using ss by (auto simp: copy_fields t d split: if_splits)
  moreover have "field x (lit ''Values'') \<noteq> None \<Longrightarrow> truthy_opt (field x (lit ''Values''))"
    using vs by (auto split: if_splits)
  moreover have "field x (lit ''StatisticValues'') \<noteq> None
      \<Longrightarrow> truthy_opt (field x (lit ''StatisticValues''))"
    using ss by (auto split: if_splits)
  ultimately have "check_data_point rt (JStr n) ?m = Inr ?m"
    using some by (auto simp: check_data_point_Inr)
  with m3 m4 n nn have ok: "parse_metric rt i x = Inr ?m"
    by (simp add: parse_metric_def get_prop_def)
  note f = parse_metric_Inr[OF ok]
  have ts: "(case field x (lit ''Timestamp'') of
            None \<Rightarrow> Timestamp ?m = None
          | Some t \<Rightarrow> (case Timestamp ?m of None \<Rightarrow> False | Some d \<Rightarrow> new_Date rt t = Inr d))"
  proof (cases "field x (lit ''Timestamp'')")
    case None
    then show ?thesis using f(5) by simp
  next
    case (Some t)
    with v obtain s where s: "t = JStr s" "s \<noteq> []"
      by (auto simp: valid_record_def dest: nonempty_string_cases)
    from nd[of s] obtain d where "new_Date rt (JStr s) = Inr d"
      by (cases "new_Date rt (JStr s)") auto
    with Some s f(5) show ?thesis by simp
  qed
  have dm: "field x (lit ''Dimensions'') = map_option JArr (Dimensions ?m)"
  proof (cases "field x (lit ''Dimensions'')")
    case None
    then show ?thesis using f(7) by simp
  next
    case (Some dv)
    with v obtain ds where "dv = JArr ds"
      by (auto simp: valid_record_def dest: array_upto_cases)
    with Some f(7) show ?thesis by simp
  qed
  have "same_content rt x ?m"
    unfolding same_content_def
    using f(1) f(3) f(4) f(9) f(10) f(11) u vs cs ss ts dm by (auto split: if_splits)
  with ok show ?thesis by blast
qed

lemma parseMetricData_array:
  assumes "JSON_parse rt s = Inr (JArr xs)"
  shows "(parseMetricData rt s = Inr ms) =
     (0 < length xs \<and> length xs \<le> 1000 \<and> length ms = length xs
      \<and> (\<forall>k<length xs. parse_metric rt k (xs ! k) = Inr (ms ! k)))"
  using assms by (auto simp: parseMetricData_def parse_loop_Inr_iff)

lemma parse_valid_batch:
  assumes "JSON_parse rt s = Inr (JArr xs)"
    and "1 \<le> length xs" and "length xs \<le> 1000"
    and "\<forall>x\<in>set xs. valid_record x"
    and "\<forall>t. \<not> isl (new_Date rt (JStr t))"
  shows "\<exists>ms. parseMetricData rt s = Inr ms \<and> length ms = length xs
     \<and> (\<forall>k<length xs. same_content rt (xs ! k) (ms ! k))"
proof -
  have "\<forall>k<length xs. \<exists>m. parse_metric rt k (xs ! k) = Inr m \<and> same_content rt (xs ! k) m"
    using assms(4,5) parse_metric_valid[of _ rt] by simp
  then obtain f where f: "\<forall>k<length xs. parse_metric rt k (xs ! k) = Inr (f k)
      \<and> same_content rt (xs ! k) (f k)"
    by metis
  let ?ms = "map f [0..<length xs]"
  have "parseMetricData rt s = Inr ?ms"
    using assms(1,2,3) f by (auto simp: parseMetricData_array)
  moreover have "\<forall>k<length xs. same_content rt (xs ! k) (?ms ! k)"
    using f by simp
  ultimately show ?thesis by (intro exI[of _ ?ms]) simp
qed

text \<open>
  Claim C1. When \<open>JSON.parse\<close> gives an array of 1 to 1000 valid records,
  \<open>parseMetricData\<close> returns a sequence of the same length whose record at each index
  carries the content of the input record at that index. (The runtime's \<open>new Date\<close>
  does not throw on a string.)
\<close>

theorem parseMetricData_preserves_batch:
  assumes "JSON_parse rt s = Inr (JArr xs)"
    and "1 \<le> length xs" and "length xs \<le> 1000"
    and "\<forall>x\<in>set xs. valid_record x"
    and "\<forall>t. \<not> isl (new_Date rt (JStr t))"
  shows "\<exists>ms. parseMetricData rt s = Inr ms \<and> length ms = length xs
     \<and> (\<forall>k<length xs. same_content rt (xs ! k) (ms ! k))"
  using assms by (rule parse_valid_batch)

theorem parseMetricData_preserves_batch_witness:
  "JSON_parse (table_runtime [(batch_text, JArr batch)]) batch_text = Inr (JArr batch)
   \<and> 1 \<le> length batch \<and> length batch \<le> 1000
   \<and> list_all valid_record batch
   \<and> (\<forall>t. \<not> isl (new_Date (table_runtime [(batch_text, JArr batch)]) (JStr t)))
   \<and> (\<exists>ms. parseMetricData (table_runtime [(batch_text, JArr batch)]) batch_text = Inr ms
          \<and> length ms = length batch
          \<and> (\<forall>k<length batch.
                same_content (table_runtime [(batch_text, JArr batch)]) (batch ! k) (ms ! k)))"
proof -
  let ?rt = "table_runtime [(batch_text, JArr batch)]"
  have h1: "JSON_parse ?rt batch_text = Inr (JArr batch)"
    by (simp add: table_runtime_def)
  have h2: "1 \<le> length batch" and h3: "length batch \<le> 1000"
    by (simp_all add: batch_def)
  have h4: "\<forall>x\<in>set batch. valid_record x"
    by (simp add: batch_def valid_record_def lit_def)
  have h5: "\<forall>t. \<not> isl (new_Date ?rt (JStr t))"
    by (simp add: table_runtime_def)
  from parseMetricData_preserves_batch[OF h1 h2 h3 h4 h5] h1 h2 h3 h4 h5
  show ?thesis by (simp add: list_all_iff)
qed

lemma parseMetricData_single:
  assumes "JSON_parse rt s = Inr (JArr [x])"
  shows "parseMetricData rt s = (case parse_metric rt 0 x of Inl e \<Rightarrow> Inl e | Inr m \<Rightarrow> Inr [m])"
  using assms by (simp add: parseMetricData_def split: sum.splits)

lemma parseMetricData_member:
  assumes "parseMetricData rt s = Inr ms"
  shows "\<exists>xs. JSON_parse rt s = Inr (JArr xs) \<and> length ms = length xs
     \<and> (\<forall>k<length xs. parse_metric rt k (xs ! k) = Inr (ms ! k))"
proof -
  from assms obtain xs where xs: "JSON_parse rt s = Inr (JArr xs)"
    by (auto simp: parseMetricData_def split: sum.splits json.splits if_splits)
  with assms show ?thesis by (auto simp: parseMetricData_array)
qed

lemma lit_neq:
  "lit ''MetricName'' \<noteq> lit ''Dimensions''" "lit ''MetricName'' \<noteq> lit ''Value''"
  "lit ''Dimensions'' \<noteq> lit ''Value''" "lit ''MetricName'' \<noteq> lit ''Unit''"
  "lit ''MetricName'' \<noteq> lit ''Timestamp''" "lit ''MetricName'' \<noteq> lit ''Values''"
  "lit ''MetricName'' \<noteq> lit ''Counts''" "lit ''MetricName'' \<noteq> lit ''StatisticValues''"
  "lit ''Dimensions'' \<noteq> lit ''Unit''" "lit ''Dimensions'' \<noteq> lit ''Timestamp''"
  "lit ''Dimensions'' \<noteq> lit ''Values''" "lit ''Dimensions'' \<noteq> lit ''Counts''"
  "lit ''Dimensions'' \<noteq> lit ''StatisticValues''"
  "lit ''Value'' \<noteq> lit ''Unit''" "lit ''Value'' \<noteq> lit ''Timestamp''"
  "lit ''Value'' \<noteq> lit ''Values''" "lit ''Value'' \<noteq> lit ''Counts''"
  "lit ''Value'' \<noteq> lit ''StatisticValues''"
  "lit ''Values'' \<noteq> lit ''Unit''" "lit ''Values'' \<noteq> lit ''Timestamp''"
  "lit ''Values'' \<noteq> lit ''Counts''" "lit ''Values'' \<noteq> lit ''StatisticValues''"
  by (simp_all add: lit_def)

lemma parse_metric_counts_without_values:
  "parse_metric rt i counts_without_values =
     Inr \<lparr>MetricName = JStr (lit ''X''), Value = Some (JNum 1), Unit = None, Timestamp = None,
          Dimensions = None, Values = None, Counts = Some (JArr [JNum 2]),
          StatisticValues = None\<rparr>"
  by (simp add: counts_without_values_def parse_metric_def get_prop_def add_timestamp_def
      add_dimensions_def add_value_def add_unit_def add_values_def add_counts_def
      add_statistic_values_def check_data_point_def lit_def)

lemma parse_metric_unpaired_counts:
  "parse_metric rt i unpaired_counts =
     Inr \<lparr>MetricName = JStr (lit ''X''), Value = None, Unit = None, Timestamp = None,
          Dimensions = None, Values = Some (JArr [JNum 1, JNum 2]),
          Counts = Some (JArr [JNum 3]), StatisticValues = None\<rparr>"
  by (simp add: unpaired_counts_def parse_metric_def get_prop_def add_timestamp_def
      add_dimensions_def add_value_def add_unit_def add_values_def add_counts_def
      add_statistic_values_def check_data_point_def lit_def)

lemma parse_metric_no_data_field: "isl (parse_metric rt i no_data_field)"
  by (simp add: no_data_field_def parse_metric_def get_prop_def add_timestamp_def
      add_dimensions_def add_value_def add_unit_def add_values_def add_counts_def
      add_statistic_values_def check_data_point_def lit_def)

lemma isl_check_data_point:
  "isl (check_data_point rt n m) =
     (Value m = None \<and> \<not> truthy_opt (Values m) \<and> \<not> truthy_opt (StatisticValues m))"
  by (simp add: check_data_point_def split: sum.splits)

lemma parse_metric_lacking:
  assumes "field x (lit ''Value'') = None"
    and "\<not> truthy_opt (field x (lit ''Values''))"
    and "\<not> truthy_opt (field x (lit ''StatisticValues''))"
  shows "isl (parse_metric rt i x)"
proof (cases "parse_metric rt i x")
  case (Inl e)
  then show ?thesis by simp
next
  case (Inr m)
  from parse_metric_Inr(3,9,11,12)[OF Inr] assms show ?thesis by auto
qed

lemma lit_neq_counts:
  "lit ''MetricName'' \<noteq> lit ''Counts''" "lit ''Value'' \<noteq> lit ''Counts''"
  "lit ''Unit'' \<noteq> lit ''Counts''" "lit ''Timestamp'' \<noteq> lit ''Counts''"
  "lit ''Dimensions'' \<noteq> lit ''Counts''" "lit ''Values'' \<noteq> lit ''Counts''"
  "lit ''StatisticValues'' \<noteq> lit ''Counts''"
  by (simp_all add: lit_def)

text \<open>Whether the loop body accepts a record does not depend on its \<open>Counts\<close>.\<close>

lemma parse_metric_ignores_counts:
  assumes eq: "\<And>key. key \<noteq> lit ''Counts'' \<Longrightarrow> field x' key = field x key"
    and nn: "(x' = JNull) = (x = JNull)"
  shows "isl (parse_metric rt i x') = isl (parse_metric rt i x)"
proof -
  note f = eq[OF lit_neq_counts(1)] eq[OF lit_neq_counts(2)] eq[OF lit_neq_counts(3)]
    eq[OF lit_neq_counts(4)] eq[OF lit_neq_counts(5)] eq[OF lit_neq_counts(6)]
    eq[OF lit_neq_counts(7)]
  have gp: "get_prop x' (lit ''MetricName'') = get_prop x (lit ''MetricName'')"
    using nn f(1) by (simp add: get_prop_def)
  have av: "add_value x' = add_value x" and au: "add_unit x' = add_unit x"
    and avs: "add_values x' = add_values x"
    and asv: "add_statistic_values x' = add_statistic_values x"
    by (auto simp: add_value_def add_unit_def add_values_def add_statistic_values_def f)
  have at: "add_timestamp rt x' = add_timestamp rt x"
    by (auto simp: add_timestamp_def f)
  have ad: "add_dimensions rt n x' = add_dimensions rt n x" for n
    by (auto simp: add_dimensions_def f)
  have ck: "isl (check_data_point rt n (add_statistic_values x (add_counts x' (add_values x m))))
      = isl (check_data_point rt n (add_statistic_values x (add_counts x (add_values x m))))"
    for n m
    by (simp add: isl_check_data_point copy_fields)
  show ?thesis
    unfolding parse_metric_def gp av au avs asv at ad
    by (auto simp: ck split: sum.splits option.splits)
qed

text \<open>
  Claim C3. If some record of the parsed array has no \<open>Value\<close> and no truthy
  \<open>Values\<close> or \<open>StatisticValues\<close>, \<open>parseMetricData\<close> fails; every record of a
  result it returns has at least one of the three fields; and the check that enforces
  this throws the error that names the three fields.
\<close>

theorem data_field_required:
  "(JSON_parse rt s = Inr (JArr xs) \<and> x \<in> set xs \<and> field x (lit ''Value'') = None
      \<and> \<not> truthy_opt (field x (lit ''Values''))
      \<and> \<not> truthy_opt (field x (lit ''StatisticValues''))
      \<longrightarrow> isl (parseMetricData rt s))
   \<and> (parseMetricData rt s = Inr ms \<and> m \<in> set ms
      \<longrightarrow> Value m \<noteq> None \<or> Values m \<noteq> None \<or> StatisticValues m \<noteq> None)
   \<and> (Value d = None \<and> \<not> truthy_opt (Values d) \<and> \<not> truthy_opt (StatisticValues d)
      \<longrightarrow> check_data_point rt (JStr n) d =
            Inl (JsError (lit ''Metric \"'' @ n
                   @ lit ''\" must have at least one of: Value, Values, or StatisticValues'')))"
proof (intro conjI impI)
  assume a: "JSON_parse rt s = Inr (JArr xs) \<and> x \<in> set xs \<and> field x (lit ''Value'') = None
      \<and> \<not> truthy_opt (field x (lit ''Values''))
      \<and> \<not> truthy_opt (field x (lit ''StatisticValues''))"
  then obtain k where k: "k < length xs" "xs ! k = x" by (auto simp: in_set_conv_nth)
  show "isl (parseMetricData rt s)"
  proof (cases "parseMetricData rt s")
    case (Inl e)
    then show ?thesis by simp
  next
    case (Inr ms')
    with a k have "parse_metric rt k x = Inr (ms' ! k)"
      by (auto simp: parseMetricData_array)
    moreover have "isl (parse_metric rt k x)"
      using a by (intro parse_metric_lacking) simp_all
    ultimately show ?thesis by simp
  qed
next
  assume b: "parseMetricData rt s = Inr ms \<and> m \<in> set ms"
  then obtain ys where ys: "length ms = length ys"
    "\<forall>k<length ys. parse_metric rt k (ys ! k) = Inr (ms ! k)"
    using parseMetricData_member by blast
  from b obtain k where k: "k < length ms" "ms ! k = m" by (auto simp: in_set_conv_nth)
  with ys have "parse_metric rt k (ys ! k) = Inr m" by auto
  from parse_metric_Inr(12)[OF this]
  show "Value m \<noteq> None \<or> Values m \<noteq> None \<or> StatisticValues m \<noteq> None" by auto
next
  assume "Value d = None \<and> \<not> truthy_opt (Values d) \<and> \<not> truthy_opt (StatisticValues d)"
  then show "check_data_point rt (JStr n) d =
            Inl (JsError (lit ''Metric \"'' @ n
                   @ lit ''\" must have at least one of: Value, Values, or StatisticValues''))"
    by (simp add: check_data_point_def)
qed

theorem data_field_required_witness:
  "isl (parseMetricData (table_runtime [(lit ''[{\"MetricName\":\"X\",\"Unit\":\"Count\"}]'',
                                         JArr [no_data_field])])
          (lit ''[{\"MetricName\":\"X\",\"Unit\":\"Count\"}]''))
   \<and> parseMetricData (table_runtime [(counts_without_values_text, JArr [counts_without_values])])
         counts_without_values_text =
       Inr [\<lparr>MetricName = JStr (lit ''X''), Value = Some (JNum 1), Unit = None,
              Timestamp = None, Dimensions = None, Values = None,
              Counts = Some (JArr [JNum 2]), StatisticValues = None\<rparr>]
   \<and> Value \<lparr>MetricName = JStr (lit ''X''), Value = Some (JNum 1), Unit = None,
              Timestamp = None, Dimensions = None, Values = None,
              Counts = Some (JArr [JNum 2]), StatisticValues = None\<rparr> \<noteq> None
   \<and> check_data_point (table_runtime [])
         (JStr (lit ''X''))
         \<lparr>MetricName = JStr (lit ''X''), Value = None, Unit = Some (JStr (lit ''Count'')),
          Timestamp = None, Dimensions = None, Values = None, Counts = None,
          StatisticValues = None\<rparr> =
       Inl (JsError (lit ''Metric \"X\" must have at least one of: Value, Values, or StatisticValues''))"
proof -
  let ?t = "lit ''[{\"MetricName\":\"X\",\"Unit\":\"Count\"}]''"
  let ?rt = "table_runtime [(?t, JArr [no_data_field])]"
  let ?rt2 = "table_runtime [(counts_without_values_text, JArr [counts_without_values])]"
  let ?m = "\<lparr>MetricName = JStr (lit ''X''), Value = Some (JNum 1), Unit = None,
              Timestamp = None, Dimensions = None, Values = None,
              Counts = Some (JArr [JNum 2]), StatisticValues = None\<rparr> :: json MetricDatum"
  let ?d = "\<lparr>MetricName = JStr (lit ''X''), Value = None, Unit = Some (JStr (lit ''Count'')),
          Timestamp = None, Dimensions = None, Values = None, Counts = None,
          StatisticValues = None\<rparr> :: json MetricDatum"
  have p1: "JSON_parse ?rt ?t = Inr (JArr [no_data_field])"
    by (simp add: table_runtime_def)
  have p2: "parseMetricData ?rt2 counts_without_values_text = Inr [?m]"
    by (simp add: parseMetricData_single parse_metric_counts_without_values table_runtime_def)
  have f: "field no_data_field (lit ''Value'') = None"
    "\<not> truthy_opt (field no_data_field (lit ''Values''))"
    "\<not> truthy_opt (field no_data_field (lit ''StatisticValues''))"
    by (simp_all add: no_data_field_def lit_def)
  have a: "isl (parseMetricData ?rt ?t)"
    using data_field_required[of ?rt ?t "[no_data_field]" no_data_field] p1 f by simp
  have b: "Value ?m \<noteq> None"
    using data_field_required[of ?rt2 counts_without_values_text _ _ "[?m]" ?m] p2 by simp
  have c: "check_data_point (table_runtime []) (JStr (lit ''X'')) ?d =
       Inl (JsError (lit ''Metric \"'' @ lit ''X''
              @ lit ''\" must have at least one of: Value, Values, or StatisticValues''))"
    using data_field_required[of "table_runtime []" _ _ _ _ _ ?d "lit ''X''"] by simp
  from a b c p2 show ?thesis by (simp add: lit_def)
qed




text \<open>
  Claim C8, as the code has it. \<open>Counts\<close> is copied to the output record whenever it
  is truthy, whether or not \<open>Values\<close> is present: it is not dropped. Nothing checks
  that \<open>Values\<close> and \<open>Counts\<close> go together: whether a record is accepted does not
  depend on its \<open>Counts\<close>, and a record with two \<open>Values\<close> and one \<open>Counts\<close> parses.
\<close>

theorem counts_copied_unchecked:
  "(JSON_parse rt s = Inr (JArr xs) \<and> parseMetricData rt s = Inr ms \<and> k < length xs
      \<longrightarrow> Counts (ms ! k) =
            (if truthy_opt (field (xs ! k) (lit ''Counts''))
             then field (xs ! k) (lit ''Counts'') else None))
   \<and> ((\<forall>key. key \<noteq> lit ''Counts'' \<longrightarrow> field x' key = field x key)
        \<and> (x' = JNull) = (x = JNull)
      \<longrightarrow> isl (parse_metric rt i x') = isl (parse_metric rt i x))
   \<and> (JSON_parse rt s = Inr (JArr [unpaired_counts])
      \<longrightarrow> parseMetricData rt s =
            Inr [\<lparr>MetricName = JStr (lit ''X''), Value = None, Unit = None, Timestamp = None,
                   Dimensions = None, Values = Some (JArr [JNum 1, JNum 2]),
                   Counts = Some (JArr [JNum 3]), StatisticValues = None\<rparr>])"
proof (intro conjI impI)
  assume a: "JSON_parse rt s = Inr (JArr xs) \<and> parseMetricData rt s = Inr ms \<and> k < length xs"
  then have "parse_metric rt k (xs ! k) = Inr (ms ! k)"
    by (auto simp: parseMetricData_array)
  from parse_metric_Inr(10)[OF this]
  show "Counts (ms ! k) =
            (if truthy_opt (field (xs ! k) (lit ''Counts''))
             then field (xs ! k) (lit ''Counts'') else None)" .
next
  assume "(\<forall>key. key \<noteq> lit ''Counts'' \<longrightarrow> field x' key = field x key)
        \<and> (x' = JNull) = (x = JNull)"
  then show "isl (parse_metric rt i x') = isl (parse_metric rt i x)"
    by (intro parse_metric_ignores_counts) auto
next
  assume "JSON_parse rt s = Inr (JArr [unpaired_counts])"
  then show "parseMetricData rt s =
            Inr [\<lparr>MetricName = JStr (lit ''X''), Value = None, Unit = None, Timestamp = None,
                   Dimensions = None, Values = Some (JArr [JNum 1, JNum 2]),
                   Counts = Some (JArr [JNum 3]), StatisticValues = None\<rparr>]"
    by (simp add: parseMetricData_single parse_metric_unpaired_counts)
qed

theorem counts_copied_unchecked_witness:
  "Counts (projr (parseMetricData
                     (table_runtime [(counts_without_values_text, JArr [counts_without_values])])
                     counts_without_values_text) ! 0) =
     field counts_without_values (lit ''Counts'')
   \<and> isl (parse_metric (table_runtime []) 0
            (JObj [(lit ''MetricName'', JStr (lit ''X'')), (lit ''Counts'', JArr [JNum 2])])) =
      isl (parse_metric (table_runtime []) 0 (JObj [(lit ''MetricName'', JStr (lit ''X''))]))
   \<and> parseMetricData
        (table_runtime [(lit ''[{\"MetricName\":\"X\",\"Values\":[1,2],\"Counts\":[3]}]'',
                         JArr [unpaired_counts])])
        (lit ''[{\"MetricName\":\"X\",\"Values\":[1,2],\"Counts\":[3]}]'') =
       Inr [\<lparr>MetricName = JStr (lit ''X''), Value = None, Unit = None, Timestamp = None,
              Dimensions = None, Values = Some (JArr [JNum 1, JNum 2]),
              Counts = Some (JArr [JNum 3]), StatisticValues = None\<rparr>]"
proof -
  let ?rt2 = "table_runtime [(counts_without_values_text, JArr [counts_without_values])]"
  let ?m = "\<lparr>MetricName = JStr (lit ''X''), Value = Some (JNum 1), Unit = None,
              Timestamp = None, Dimensions = None, Values = None,
              Counts = Some (JArr [JNum 2]), StatisticValues = None\<rparr> :: json MetricDatum"
  let ?t3 = "lit ''[{\"MetricName\":\"X\",\"Values\":[1,2],\"Counts\":[3]}]''"
  let ?rt3 = "table_runtime [(?t3, JArr [unpaired_counts])]"
  have p2: "parseMetricData ?rt2 counts_without_values_text = Inr [?m]"
    "JSON_parse ?rt2 counts_without_values_text = Inr (JArr [counts_without_values])"
    by (simp_all add: parseMetricData_single parse_metric_counts_without_values
        table_runtime_def)
  have a: "Counts (projr (parseMetricData ?rt2 counts_without_values_text) ! 0) =
      field counts_without_values (lit ''Counts'')"
    using counts_copied_unchecked[of ?rt2 counts_without_values_text
        "[counts_without_values]" "[?m]" 0] p2
    by (simp add: counts_without_values_def lit_def)
  have b: "isl (parse_metric (table_runtime []) 0
            (JObj [(lit ''MetricName'', JStr (lit ''X'')), (lit ''Counts'', JArr [JNum 2])])) =
      isl (parse_metric (table_runtime []) 0 (JObj [(lit ''MetricName'', JStr (lit ''X''))]))"
    using counts_copied_unchecked[where rt = "table_runtime []" and i = 0
        and x' = "JObj [(lit ''MetricName'', JStr (lit ''X'')), (lit ''Counts'', JArr [JNum 2])]"
        and x = "JObj [(lit ''MetricName'', JStr (lit ''X''))]"]
    by (simp add: lit_def)
  have c: "parseMetricData ?rt3 ?t3 =
       Inr [\<lparr>MetricName = JStr (lit ''X''), Value = None, Unit = None, Timestamp = None,
              Dimensions = None, Values = Some (JArr [JNum 1, JNum 2]),
              Counts = Some (JArr [JNum 3]), StatisticValues = None\<rparr>]"
    using counts_copied_unchecked[of ?rt3 ?t3] by (simp add: table_runtime_def)
  show ?thesis by (rule conjI[OF a conjI[OF b c]])
qed

text \<open>
  The claim as written fails: for the record with \<open>Counts\<close> and no \<open>Values\<close> the
  output record still has the \<open>Counts\<close> array.
\<close>

theorem counts_without_values_kept:
  "field counts_without_values (lit ''Counts'') = Some (JArr [JNum 2])
   \<and> field counts_without_values (lit ''Values'') = None
   \<and> map_sum id (map Counts)
        (parseMetricData
           (table_runtime [(counts_without_values_text, JArr [counts_without_values])])
           counts_without_values_text) =
      Inr [Some (JArr [JNum 2])]"
  by (simp add: parseMetricData_single parse_metric_counts_without_values table_runtime_def)
     (simp add: counts_without_values_def lit_def)

lemma parse_metric_empty_values:
  assumes "n \<noteq> []"
  shows "parse_metric rt i (JObj [(lit ''MetricName'', JStr n), (lit ''Values'', JArr [])]) =
     Inr \<lparr>MetricName = JStr n, Value = None, Unit = None, Timestamp = None,
          Dimensions = None, Values = Some (JArr []), Counts = None, StatisticValues = None\<rparr>"
  using assms lit_neq lit_neq[symmetric]
  by (simp add: parse_metric_def get_prop_def add_timestamp_def add_dimensions_def
      add_value_def add_unit_def add_values_def add_counts_def add_statistic_values_def
      check_data_point_def)

lemma parse_metric_zero_value:
  assumes "n \<noteq> []"
  shows "parse_metric rt i (JObj [(lit ''MetricName'', JStr n), (lit ''Value'', JNum 0)]) =
     Inr \<lparr>MetricName = JStr n, Value = Some (JNum 0), Unit = None, Timestamp = None,
          Dimensions = None, Values = None, Counts = None, StatisticValues = None\<rparr>"
  using assms lit_neq lit_neq[symmetric]
  by (simp add: parse_metric_def get_prop_def add_timestamp_def add_dimensions_def
      add_value_def add_unit_def add_values_def add_counts_def add_statistic_values_def
      check_data_point_def)

text \<open>
  Claim C10. The check for a data field accepts degenerate ones. A record with a
  non-empty name and \<open>Values\<close> the empty array parses, and so does one with \<open>Value\<close>
  the number 0; the check itself accepts any metric whose \<open>Value\<close> is not undefined
  and any metric whose \<open>Values\<close> is an array.
\<close>

theorem degenerate_data_fields_accepted:
  "(n \<noteq> [] \<and> JSON_parse rt s = Inr (JArr [JObj [(lit ''MetricName'', JStr n),
                                                     (lit ''Values'', JArr [])]])
      \<longrightarrow> parseMetricData rt s =
            Inr [\<lparr>MetricName = JStr n, Value = None, Unit = None, Timestamp = None,
                   Dimensions = None, Values = Some (JArr []), Counts = None,
                   StatisticValues = None\<rparr>])
   \<and> (n \<noteq> [] \<and> JSON_parse rt s = Inr (JArr [JObj [(lit ''MetricName'', JStr n),
                                                       (lit ''Value'', JNum 0)]])
      \<longrightarrow> parseMetricData rt s =
            Inr [\<lparr>MetricName = JStr n, Value = Some (JNum 0), Unit = None, Timestamp = None,
                   Dimensions = None, Values = None, Counts = None,
                   StatisticValues = None\<rparr>])
   \<and> (Value d \<noteq> None \<or> Values d = Some (JArr vs)
      \<longrightarrow> check_data_point rt nm d = Inr d)"
  by (auto simp: parseMetricData_single parse_metric_empty_values parse_metric_zero_value
      check_data_point_def)

theorem degenerate_data_fields_accepted_witness:
  "parseMetricData
     (table_runtime [(lit ''[{\"MetricName\":\"X\",\"Values\":[]}]'',
                      JArr [JObj [(lit ''MetricName'', JStr (lit ''X'')),
                                  (lit ''Values'', JArr [])]])])
     (lit ''[{\"MetricName\":\"X\",\"Values\":[]}]'') =
     Inr [\<lparr>MetricName = JStr (lit ''X''), Value = None, Unit = None, Timestamp = None,
            Dimensions = None, Values = Some (JArr []), Counts = None,
            StatisticValues = None\<rparr>]
   \<and> parseMetricData
     (table_runtime [(lit ''[{\"MetricName\":\"X\",\"Value\":0}]'',
                      JArr [JObj [(lit ''MetricName'', JStr (lit ''X'')),
                                  (lit ''Value'', JNum 0)]])])
     (lit ''[{\"MetricName\":\"X\",\"Value\":0}]'') =
     Inr [\<lparr>MetricName = JStr (lit ''X''), Value = Some (JNum 0), Unit = None,
            Timestamp = None, Dimensions = None, Values = None, Counts = None,
            StatisticValues = None\<rparr>]
   \<and> check_data_point (table_runtime []) (JStr (lit ''X''))
        \<lparr>MetricName = JStr (lit ''X''), Value = Some JNull, Unit = None,
          Timestamp = None, Dimensions = None, Values = None, Counts = None,
          StatisticValues = None\<rparr> =
      Inr \<lparr>MetricName = JStr (lit ''X''), Value = Some JNull, Unit = None,
          Timestamp = None, Dimensions = None, Values = None, Counts = None,
          StatisticValues = None\<rparr>"
proof -
  let ?t1 = "lit ''[{\"MetricName\":\"X\",\"Values\":[]}]''"
  let ?x1 = "JObj [(lit ''MetricName'', JStr (lit ''X'')), (lit ''Values'', JArr [])]"
  let ?t2 = "lit ''[{\"MetricName\":\"X\",\"Value\":0}]''"
  let ?x2 = "JObj [(lit ''MetricName'', JStr (lit ''X'')), (lit ''Value'', JNum 0)]"
  let ?d = "\<lparr>MetricName = JStr (lit ''X''), Value = Some JNull, Unit = None,
          Timestamp = None, Dimensions = None, Values = None, Counts = None,
          StatisticValues = None\<rparr> :: json MetricDatum"
  have a: "parseMetricData (table_runtime [(?t1, JArr [?x1])]) ?t1 =
     Inr [\<lparr>MetricName = JStr (lit ''X''), Value = None, Unit = None, Timestamp = None,
            Dimensions = None, Values = Some (JArr []), Counts = None,
            StatisticValues = None\<rparr>]"
    using degenerate_data_fields_accepted[of "lit ''X''" "table_runtime [(?t1, JArr [?x1])]" ?t1]
    by (simp add: table_runtime_def) (simp add: lit_def)
  have b: "parseMetricData (table_runtime [(?t2, JArr [?x2])]) ?t2 =
     Inr [\<lparr>MetricName = JStr (lit ''X''), Value = Some (JNum 0), Unit = None,
            Timestamp = None, Dimensions = None, Values = None, Counts = None,
            StatisticValues = None\<rparr>]"
    using degenerate_data_fields_accepted[of "lit ''X''" "table_runtime [(?t2, JArr [?x2])]" ?t2]
    by (simp add: table_runtime_def) (simp add: lit_def)
  have c: "check_data_point (table_runtime []) (JStr (lit ''X'')) ?d = Inr ?d"
    using degenerate_data_fields_accepted[where d = ?d and rt = "table_runtime []"
        and nm = "JStr (lit ''X'')"]
    by simp
  show ?thesis by (rule conjI[OF a conjI[OF b c]])
qed

section \<open>Properties of putMetrics\<close>

text \<open>Every throw site of the repository's own code throws an \<open>Error\<close> instance.\<close>

lemma to_String_Inl:
  "to_String f v = Inl e \<Longrightarrow> \<exists>m. e = JsError m"
  "to_Strings f vs = Inl e \<Longrightarrow> \<exists>m. e = JsError m"
  by (induction f v and f vs arbitrary: e and e rule: to_String_to_Strings.induct)
     (auto split: sum.splits if_splits)


lemma validateNamespace_Inl: "validateNamespace ns = Inl e \<Longrightarrow> \<exists>m. e = JsError m"
  by (auto simp: validateNamespace_def split: if_splits)

lemma error_text_Inl: "error_text rt err = Inl e \<Longrightarrow> \<exists>m. e = JsError m"
  by (auto simp: error_text_def split: thrown.splits dest: to_String_Inl)

lemma get_prop_Inl: "get_prop v k = Inl e \<Longrightarrow> \<exists>m. e = JsError m"
  by (auto simp: get_prop_def split: if_splits)

lemma add_timestamp_Inl: "add_timestamp rt x metric = Inl e \<Longrightarrow> \<exists>m. e = JsError m"
  by (auto simp: add_timestamp_def split: option.splits if_splits sum.splits)

lemma add_dimensions_Inl: "add_dimensions rt n x metric = Inl e \<Longrightarrow> \<exists>m. e = JsError m"
  by (auto simp: add_dimensions_def
      split: option.splits if_splits sum.splits json.splits dest: to_String_Inl)

lemma check_data_point_Inl: "check_data_point rt n metric = Inl e \<Longrightarrow> \<exists>m. e = JsError m"
  by (auto simp: check_data_point_def split: if_splits sum.splits dest: to_String_Inl)

lemma parse_metric_Inl:
  assumes "parse_metric rt i x = Inl e"
  shows "\<exists>m. e = JsError m"
proof (cases "get_prop x (lit ''MetricName'')")
  case (Inl e')
  with assms show ?thesis by (auto simp: parse_metric_def dest: get_prop_Inl)
next
  case (Inr name_opt)
  show ?thesis
  proof (cases name_opt)
    case None
    with assms Inr show ?thesis by (auto simp: parse_metric_def)
  next
    case (Some name)
    show ?thesis
    proof (cases "truthy name")
      case False
      with assms Inr Some show ?thesis by (auto simp: parse_metric_def)
    next
      case True
      let ?m0 = "add_unit x (add_value x
                    \<lparr>MetricName = name, Value = None, Unit = None, Timestamp = None,
                     Dimensions = None, Values = None, Counts = None,
                     StatisticValues = None\<rparr>)"
      show ?thesis
      proof (cases "add_timestamp rt x ?m0")
        case (Inl e')
        with assms Inr Some True show ?thesis
          by (auto simp: parse_metric_def dest: add_timestamp_Inl)
      next
        case m3: (Inr m3)
        show ?thesis
        proof (cases "add_dimensions rt name x m3")
          case (Inl e')
          with assms Inr Some True m3 show ?thesis
            by (auto simp: parse_metric_def dest: add_dimensions_Inl)
        next
          case m4: (Inr m4)
          with assms Inr Some True m3 show ?thesis
            by (auto simp: parse_metric_def dest: check_data_point_Inl)
        qed
      qed
    qed
  qed
qed

lemma parse_loop_Inl: "parse_loop rt i xs acc = Inl e \<Longrightarrow> \<exists>m. e = JsError m"
  by (induction xs arbitrary: i acc) (auto split: sum.splits dest: parse_metric_Inl)

lemma parseMetricData_Inl: "parseMetricData rt s = Inl e \<Longrightarrow> \<exists>m. e = JsError m"
  by (auto simp: parseMetricData_def
      split: sum.splits json.splits if_splits dest: parse_loop_Inl error_text_Inl)






lemma log_metrics_requests: "requests (snd (log_metrics rt ms fx)) = requests fx"
  by (induction ms arbitrary: fx) (auto simp: core_info_def split: sum.splits)

lemma log_metrics_ok:
  "\<forall>m\<in>set ms. \<not> isl (metric_line rt m) \<Longrightarrow> fst (log_metrics rt ms fx) = Inr ()"
  by (induction ms arbitrary: fx) (auto split: sum.splits)

text \<open>The \<open>try\<close> block, case by case.\<close>

lemma putMetrics_try_invalid_namespace:
  assumes "validateNamespace ns = Inl e"
  shows "putMetrics_try rt client ns s = (Inl e, \<lparr>logged = [], requests = []\<rparr>)"
  using assms by (simp add: putMetrics_try_def)

lemma putMetrics_try_invalid_data:
  assumes "validateNamespace ns = Inr ()" and "parseMetricData rt s = Inl e"
  shows "putMetrics_try rt client ns s =
     (Inl e, \<lparr>logged = [Info (lit ''Parsing metric data...'')], requests = []\<rparr>)"
  using assms by (simp add: putMetrics_try_def core_info_def)

lemma putMetrics_try_rejected:
  assumes "validateNamespace ns = Inr ()" and "parseMetricData rt s = Inr ms"
    and "client \<lparr>Namespace = ns, MetricData = ms\<rparr> = Some e"
  shows "putMetrics_try rt client ns s =
     (Inl e, \<lparr>logged = [Info (lit ''Parsing metric data...''),
                         Info (lit ''Publishing '' @ show_nat (length ms)
                               @ lit '' metric(s) to namespace \"'' @ ns @ lit ''\"'')],
              requests = [\<lparr>Namespace = ns, MetricData = ms\<rparr>]\<rparr>)"
  using assms by (simp add: putMetrics_try_def core_info_def client_send_def)

lemma putMetrics_try_accepted:
  assumes "validateNamespace ns = Inr ()" and "parseMetricData rt s = Inr ms"
    and "client \<lparr>Namespace = ns, MetricData = ms\<rparr> = None"
  shows "putMetrics_try rt client ns s =
     (case log_metrics rt ms
             \<lparr>logged = [Info (lit ''Parsing metric data...''),
                        Info (lit ''Publishing '' @ show_nat (length ms)
                              @ lit '' metric(s) to namespace \"'' @ ns @ lit ''\"''),
                        Info ([0x2713] @ lit '' Metrics published successfully'')],
              requests = [\<lparr>Namespace = ns, MetricData = ms\<rparr>]\<rparr> of
        (Inl e, fx) \<Rightarrow> (Inl e, fx)
      | (Inr u, fx) \<Rightarrow>
          (Inr \<lparr>success = True, metricsCount = Some (length ms), error = None\<rparr>, fx))"
  using assms
  by (simp add: putMetrics_try_def core_info_def client_send_def split: prod.splits sum.splits)

lemma putMetrics_requests:
  "requests (snd (putMetrics rt client ns s)) = requests (snd (putMetrics_try rt client ns s))"
  by (auto simp: putMetrics_def core_error_def split: prod.splits sum.splits)

text \<open>
  Once the namespace and the metric data are accepted, exactly one command is sent, and
  it holds the namespace and all the parsed records.
\<close>

lemma putMetrics_sends_once:
  assumes "validateNamespace ns = Inr ()" and "parseMetricData rt s = Inr ms"
  shows "requests (snd (putMetrics rt client ns s)) = [\<lparr>Namespace = ns, MetricData = ms\<rparr>]"
proof (cases "client \<lparr>Namespace = ns, MetricData = ms\<rparr>")
  case None
  show ?thesis
    unfolding putMetrics_requests putMetrics_try_accepted[where client = client, OF assms None]
    by (cases "log_metrics rt ms
             \<lparr>logged = [Info (lit ''Parsing metric data...''),
                        Info (lit ''Publishing '' @ show_nat (length ms)
                              @ lit '' metric(s) to namespace \"'' @ ns @ lit ''\"''),
                        Info ([0x2713] @ lit '' Metrics published successfully'')],
              requests = [\<lparr>Namespace = ns, MetricData = ms\<rparr>]\<rparr>")
       (use log_metrics_requests[of rt ms] in \<open>auto split: sum.splits dest!: arg_cong[where f = snd]\<close>)
next
  case (Some e)
  show ?thesis
    unfolding putMetrics_requests putMetrics_try_rejected[where client = client, OF assms Some]
    by simp
qed

text \<open>If the client accepts and every log line can be built, the call reports success.\<close>

lemma putMetrics_success:
  assumes "validateNamespace ns = Inr ()" and "parseMetricData rt s = Inr ms"
    and "client \<lparr>Namespace = ns, MetricData = ms\<rparr> = None"
    and "\<forall>m\<in>set ms. \<not> isl (metric_line rt m)"
  shows "fst (putMetrics rt client ns s) =
     Inr \<lparr>success = True, metricsCount = Some (length ms), error = None\<rparr>"
proof -
  let ?fx = "\<lparr>logged = [Info (lit ''Parsing metric data...''),
                        Info (lit ''Publishing '' @ show_nat (length ms)
                              @ lit '' metric(s) to namespace \"'' @ ns @ lit ''\"''),
                        Info ([0x2713] @ lit '' Metrics published successfully'')],
              requests = [\<lparr>Namespace = ns, MetricData = ms\<rparr>]\<rparr>"
  obtain r fx where l: "log_metrics rt ms ?fx = (r, fx)" by (cases "log_metrics rt ms ?fx")
  with log_metrics_ok[OF assms(4), of ?fx] have "r = Inr ()" by simp
  with l show ?thesis
    by (simp add: putMetrics_def putMetrics_try_accepted[where client = client, OF assms(1,2,3)])
qed



text \<open>The \<open>catch\<close> block after a failed validation: nothing was sent.\<close>

lemma putMetrics_invalid_namespace:
  assumes "validateNamespace ns = Inl (JsError m)"
  shows "putMetrics rt client ns s =
     (Inr \<lparr>success = False, metricsCount = None, error = Some m\<rparr>,
      \<lparr>logged = [Error (lit ''Failed to put metrics: '' @ m)], requests = []\<rparr>)"
  using assms
  by (simp add: putMetrics_def putMetrics_try_invalid_namespace error_text_def core_error_def)

lemma putMetrics_invalid_data:
  assumes "validateNamespace ns = Inr ()" and "parseMetricData rt s = Inl (JsError m)"
  shows "putMetrics rt client ns s =
     (Inr \<lparr>success = False, metricsCount = None, error = Some m\<rparr>,
      \<lparr>logged = [Info (lit ''Parsing metric data...''),
                 Error (lit ''Failed to put metrics: '' @ m)], requests = []\<rparr>)"
  using assms
  by (simp add: putMetrics_def putMetrics_try_invalid_data error_text_def core_error_def)

lemma putMetrics_invalid:
  assumes "isl (validateNamespace ns) \<or> isl (parseMetricData rt s)"
  shows "requests (snd (putMetrics rt client ns s)) = []
     \<and> (\<exists>msg. fst (putMetrics rt client ns s) =
                 Inr \<lparr>success = False, metricsCount = None, error = Some msg\<rparr>)"
proof (cases "validateNamespace ns")
  case (Inl e)
  then obtain m where "validateNamespace ns = Inl (JsError m)"
    using validateNamespace_Inl by blast
  then show ?thesis by (simp add: putMetrics_invalid_namespace)
next
  case (Inr u)
  then have v: "validateNamespace ns = Inr ()" by simp
  with assms obtain e where "parseMetricData rt s = Inl e"
    by (cases "parseMetricData rt s") auto
  then obtain m where "parseMetricData rt s = Inl (JsError m)"
    using parseMetricData_Inl by blast
  with v show ?thesis by (simp add: putMetrics_invalid_data)
qed

text \<open>
  Claim C6. When the namespace or the metric data is refused, \<open>putMetrics\<close> returns a
  failure result and \<open>send\<close> has not been called. For a text that is not JSON the
  message is the parse error's, for the empty array it says that the array is empty.
\<close>

theorem no_send_on_invalid_input:
  "(isl (validateNamespace ns) \<or> isl (parseMetricData rt s)
      \<longrightarrow> requests (snd (putMetrics rt client ns s)) = []
          \<and> (\<exists>msg. fst (putMetrics rt client ns s) =
                      Inr \<lparr>success = False, metricsCount = None, error = Some msg\<rparr>))
   \<and> (validateNamespace ns = Inr () \<and> JSON_parse rt s = Inl (JsError m)
      \<longrightarrow> requests (snd (putMetrics rt client ns s)) = []
          \<and> fst (putMetrics rt client ns s) =
              Inr \<lparr>success = False, metricsCount = None,
                   error = Some (lit ''Failed to parse metric-data JSON: '' @ m)\<rparr>)
   \<and> (validateNamespace ns = Inr () \<and> JSON_parse rt s = Inr (JArr [])
      \<longrightarrow> requests (snd (putMetrics rt client ns s)) = []
          \<and> fst (putMetrics rt client ns s) =
              Inr \<lparr>success = False, metricsCount = None,
                   error = Some (lit ''metric-data array cannot be empty'')\<rparr>)"
proof (intro conjI impI)
  assume a: "isl (validateNamespace ns) \<or> isl (parseMetricData rt s)"
  from putMetrics_invalid[OF a]
  show "requests (snd (putMetrics rt client ns s)) = []"
    and "\<exists>msg. fst (putMetrics rt client ns s) =
                      Inr \<lparr>success = False, metricsCount = None, error = Some msg\<rparr>"
    by blast+
next
  assume a: "validateNamespace ns = Inr () \<and> JSON_parse rt s = Inl (JsError m)"
  then have "parseMetricData rt s =
      Inl (JsError (lit ''Failed to parse metric-data JSON: '' @ m))"
    by (simp add: parseMetricData_def error_text_def)
  with a have p: "putMetrics rt client ns s =
     (Inr \<lparr>success = False, metricsCount = None,
           error = Some (lit ''Failed to parse metric-data JSON: '' @ m)\<rparr>,
      \<lparr>logged = [Info (lit ''Parsing metric data...''),
                 Error (lit ''Failed to put metrics: ''
                        @ lit ''Failed to parse metric-data JSON: '' @ m)], requests = []\<rparr>)"
    by (simp add: putMetrics_invalid_data)
  show "requests (snd (putMetrics rt client ns s)) = []" by (simp add: p)
  show "fst (putMetrics rt client ns s) =
              Inr \<lparr>success = False, metricsCount = None,
                   error = Some (lit ''Failed to parse metric-data JSON: '' @ m)\<rparr>"
    by (simp add: p)
next
  assume a: "validateNamespace ns = Inr () \<and> JSON_parse rt s = Inr (JArr [])"
  then have "parseMetricData rt s = Inl (JsError (lit ''metric-data array cannot be empty''))"
    by (simp add: parseMetricData_def)
  with a have p: "putMetrics rt client ns s =
     (Inr \<lparr>success = False, metricsCount = None,
           error = Some (lit ''metric-data array cannot be empty'')\<rparr>,
      \<lparr>logged = [Info (lit ''Parsing metric data...''),
                 Error (lit ''Failed to put metrics: ''
                        @ lit ''metric-data array cannot be empty'')], requests = []\<rparr>)"
    by (simp add: putMetrics_invalid_data)
  show "requests (snd (putMetrics rt client ns s)) = []" by (simp add: p)
  show "fst (putMetrics rt client ns s) =
              Inr \<lparr>success = False, metricsCount = None,
                   error = Some (lit ''metric-data array cannot be empty'')\<rparr>"
    by (simp add: p)
qed

theorem no_send_on_invalid_input_witness:
  "requests (snd (putMetrics (table_runtime []) accepting_client (lit ''My App'') scenario_text)) = []
   \<and> (\<exists>msg. fst (putMetrics (table_runtime []) accepting_client (lit ''My App'') scenario_text) =
               Inr \<lparr>success = False, metricsCount = None, error = Some msg\<rparr>)
   \<and> requests (snd (putMetrics (table_runtime []) accepting_client (lit ''Test'')
                      (lit ''{not valid''))) = []
   \<and> fst (putMetrics (table_runtime []) accepting_client (lit ''Test'') (lit ''{not valid'')) =
       Inr \<lparr>success = False, metricsCount = None,
            error = Some (lit ''Failed to parse metric-data JSON: Unexpected token'')\<rparr>
   \<and> requests (snd (putMetrics (table_runtime [(lit ''[]'', JArr [])]) accepting_client
                      (lit ''Test'') (lit ''[]''))) = []
   \<and> fst (putMetrics (table_runtime [(lit ''[]'', JArr [])]) accepting_client
            (lit ''Test'') (lit ''[]'')) =
       Inr \<lparr>success = False, metricsCount = None,
            error = Some (lit ''metric-data array cannot be empty'')\<rparr>"
proof -
  have v: "validateNamespace (lit ''Test'') = Inr ()"
    by (simp add: validateNamespace_Inr_iff lit_def valid_char_def is_whitespace_def)
  have n: "isl (validateNamespace (lit ''My App''))"
    by (simp add: validateNamespace_def validPattern_test_def trim_def lit_def
        valid_char_def is_whitespace_def)
  have j1: "JSON_parse (table_runtime []) (lit ''{not valid'') =
      Inl (JsError (lit ''Unexpected token''))"
    by (simp add: table_runtime_def)
  have j2: "JSON_parse (table_runtime [(lit ''[]'', JArr [])]) (lit ''[]'') = Inr (JArr [])"
    by (simp add: table_runtime_def)
  have a: "requests (snd (putMetrics (table_runtime []) accepting_client (lit ''My App'')
                            scenario_text)) = []
     \<and> (\<exists>msg. fst (putMetrics (table_runtime []) accepting_client (lit ''My App'')
                        scenario_text) =
               Inr \<lparr>success = False, metricsCount = None, error = Some msg\<rparr>)"
    using no_send_on_invalid_input[of "lit ''My App''" "table_runtime []" scenario_text
        accepting_client] n by blast
  have b: "requests (snd (putMetrics (table_runtime []) accepting_client (lit ''Test'')
                      (lit ''{not valid''))) = []
   \<and> fst (putMetrics (table_runtime []) accepting_client (lit ''Test'') (lit ''{not valid'')) =
       Inr \<lparr>success = False, metricsCount = None,
            error = Some (lit ''Failed to parse metric-data JSON: '' @ lit ''Unexpected token'')\<rparr>"
    using no_send_on_invalid_input[of "lit ''Test''" "table_runtime []" "lit ''{not valid''"
        accepting_client "lit ''Unexpected token''"] v j1 by blast
  have c: "requests (snd (putMetrics (table_runtime [(lit ''[]'', JArr [])]) accepting_client
                      (lit ''Test'') (lit ''[]''))) = []
   \<and> fst (putMetrics (table_runtime [(lit ''[]'', JArr [])]) accepting_client
            (lit ''Test'') (lit ''[]'')) =
       Inr \<lparr>success = False, metricsCount = None,
            error = Some (lit ''metric-data array cannot be empty'')\<rparr>"
    using no_send_on_invalid_input[of "lit ''Test''" "table_runtime [(lit ''[]'', JArr [])]"
        "lit ''[]''" accepting_client] v j2 by blast
  have l: "lit ''Failed to parse metric-data JSON: '' @ lit ''Unexpected token''
      = lit ''Failed to parse metric-data JSON: Unexpected token''"
    by (simp add: lit_def)
  from a b c show ?thesis unfolding l by blast
qed

lemma validateNamespace_Test: "validateNamespace (lit ''Test'') = Inr ()"
  by (simp add: validateNamespace_Inr_iff lit_def valid_char_def is_whitespace_def)

lemma parse_metric_scenario:
  "parse_metric rt i scenario_record =
     Inr \<lparr>MetricName = JStr (lit ''X''), Value = Some (JNum 1), Unit = None, Timestamp = None,
          Dimensions = None, Values = None, Counts = None, StatisticValues = None\<rparr>"
  by (simp add: scenario_record_def parse_metric_def get_prop_def add_timestamp_def
      add_dimensions_def add_value_def add_unit_def add_values_def add_counts_def
      add_statistic_values_def check_data_point_def lit_def)

lemma parse_metric_null_dimension:
  "parse_metric rt i null_dimension_record =
     Inr \<lparr>MetricName = JStr (lit ''X''), Value = Some (JNum 1), Unit = None, Timestamp = None,
          Dimensions = Some [JNull], Values = None, Counts = None, StatisticValues = None\<rparr>"
  by (simp add: null_dimension_record_def parse_metric_def get_prop_def add_timestamp_def
      add_dimensions_def add_value_def add_unit_def add_values_def add_counts_def
      add_statistic_values_def check_data_point_def lit_def)

text \<open>The catch block after a rejected send.\<close>

lemma putMetrics_rejected:
  assumes "validateNamespace ns = Inr ()" and "parseMetricData rt s = Inr ms"
    and "client \<lparr>Namespace = ns, MetricData = ms\<rparr> = Some (JsError msg)"
  shows "putMetrics rt client ns s =
     (Inr \<lparr>success = False, metricsCount = None, error = Some msg\<rparr>,
      \<lparr>logged = [Info (lit ''Parsing metric data...''),
                 Info (lit ''Publishing '' @ show_nat (length ms)
                       @ lit '' metric(s) to namespace \"'' @ ns @ lit ''\"''),
                 Error (lit ''Failed to put metrics: '' @ msg)],
       requests = [\<lparr>Namespace = ns, MetricData = ms\<rparr>]\<rparr>)"
  by (simp add: putMetrics_def putMetrics_try_rejected[where client = client, OF assms]
      error_text_def core_error_def)

text \<open>
  The scenario of the specification: one metric, namespace \<open>Test\<close>, a client that
  accepts. One command is sent and the call reports success with a count of 1.
\<close>

lemma putMetrics_scenario:
  "fst (putMetrics (table_runtime [(scenario_text, JArr [scenario_record])]) accepting_client
          (lit ''Test'') scenario_text) =
     Inr \<lparr>success = True, metricsCount = Some 1, error = None\<rparr>"
proof -
  let ?rt = "table_runtime [(scenario_text, JArr [scenario_record])]"
  let ?m = "\<lparr>MetricName = JStr (lit ''X''), Value = Some (JNum 1), Unit = None,
             Timestamp = None, Dimensions = None, Values = None, Counts = None,
             StatisticValues = None\<rparr> :: json MetricDatum"
  have p: "parseMetricData ?rt scenario_text = Inr [?m]"
    by (simp add: parseMetricData_single parse_metric_scenario table_runtime_def)
  have l: "\<forall>m\<in>set [?m]. \<not> isl (metric_line ?rt m)"
    by (simp add: metric_line_def)
  from putMetrics_success[OF validateNamespace_Test p _ l, of accepting_client]
  show ?thesis by (simp add: accepting_client_def)
qed

lemma to_String_JStr_opt: "is_string ov \<Longrightarrow> \<not> isl (to_String_opt f ov)"
  by (cases ov rule: is_string.cases) auto

lemma dimension_text_declared:
  assumes "declared_dimension d"
  shows "\<not> isl (dimension_text f d)"
proof -
  from assms have "d \<noteq> JNull" by (auto simp: declared_dimension_def)
  moreover from assms obtain a b where "to_String_opt f (field d (lit ''Name'')) = Inr a"
    "to_String_opt f (field d (lit ''Value'')) = Inr b"
    using to_String_JStr_opt[of "field d (lit ''Name'')" f]
      to_String_JStr_opt[of "field d (lit ''Value'')" f]
    by (cases "to_String_opt f (field d (lit ''Name''))";
        cases "to_String_opt f (field d (lit ''Value''))")
       (auto simp: declared_dimension_def)
  ultimately show ?thesis by (simp add: dimension_text_def get_prop_def)
qed

lemma map_throwing_ok:
  "\<forall>x\<in>set xs. \<not> isl (g x) \<Longrightarrow> \<not> isl (map_throwing g xs)"
  by (induction xs) (auto split: sum.splits)

lemma metric_line_declared:
  assumes v: "valid_record x" and dd: "absent_or declared_dimensions (field x (lit ''Dimensions''))"
    and sc: "same_content rt x m"
  shows "\<not> isl (metric_line rt m)"
proof -
  let ?f = "Number_toString rt"
  from v sc obtain n where n: "MetricName m = JStr n"
    by (cases "field x (lit ''MetricName'')")
       (auto simp: valid_record_def same_content_def dest: nonempty_string_cases)
  have dims: "\<not> isl (case Dimensions m of
              None \<Rightarrow> Inr []
            | Some ds \<Rightarrow>
                (case map_throwing (dimension_text ?f) ds of
                   Inl e \<Rightarrow> Inl e
                 | Inr parts \<Rightarrow> Inr (lit '' ['' @ join (lit '', '') parts @ lit '']'')))"
  proof (cases "Dimensions m")
    case None
    then show ?thesis by simp
  next
    case (Some ds)
    with sc have "field x (lit ''Dimensions'') = Some (JArr ds)"
      by (simp add: same_content_def)
    with dd have "list_all declared_dimension ds" by simp
    then have "\<not> isl (map_throwing (dimension_text ?f) ds)"
      by (intro map_throwing_ok) (auto simp: list_all_iff dimension_text_declared)
    with Some show ?thesis
      by (cases "map_throwing (dimension_text ?f) ds") auto
  qed
  have unit: "\<not> isl (if truthy_opt (Unit m)
                    then (case to_String_opt ?f (Unit m) of
                            Inl e \<Rightarrow> Inl e
                          | Inr u \<Rightarrow> Inr (lit '' '' @ u))
                    else Inr [])"
  proof (cases "Unit m")
    case None
    then show ?thesis by simp
  next
    case (Some u)
    with v sc obtain us where "u = JStr us"
      by (auto simp: valid_record_def same_content_def dest: nonempty_string_cases)
    with Some show ?thesis by simp
  qed
  have val: "\<not> isl (to_String ?f (case Value m of Some x \<Rightarrow> x
                                       | None \<Rightarrow> JStr (lit ''statistic-set'')))"
  proof (cases "Value m")
    case None
    then show ?thesis by simp
  next
    case (Some w)
    with v sc have "is_number w" by (auto simp: valid_record_def same_content_def)
    then obtain r where "w = JNum r" by (cases w) auto
    with Some show ?thesis by simp
  qed
  from dims unit val n show ?thesis
    by (auto simp: metric_line_def Let_def split: sum.splits)
qed

text \<open>
  On a batch of the declared shape, dimensions included, an accepting client makes
  \<open>putMetrics\<close> report success with the number of records of the input array.
\<close>

lemma putMetrics_success_declared:
  assumes "validateNamespace ns = Inr ()"
    and "JSON_parse rt s = Inr (JArr xs)"
    and "1 \<le> length xs" and "length xs \<le> 1000"
    and "\<forall>x\<in>set xs. valid_record x
           \<and> absent_or declared_dimensions (field x (lit ''Dimensions''))"
    and "\<forall>t. \<not> isl (new_Date rt (JStr t))"
    and "\<forall>c. client c = None"
  shows "fst (putMetrics rt client ns s) =
     Inr \<lparr>success = True, metricsCount = Some (length xs), error = None\<rparr>"
proof -
  from parse_valid_batch[OF assms(2,3,4) _ assms(6)] assms(5)
  obtain ms where ms: "parseMetricData rt s = Inr ms" "length ms = length xs"
    "\<forall>k<length xs. same_content rt (xs ! k) (ms ! k)"
    by auto
  have "\<forall>m\<in>set ms. \<not> isl (metric_line rt m)"
  proof
    fix m assume "m \<in> set ms"
    then obtain k where k: "k < length ms" "ms ! k = m" by (auto simp: in_set_conv_nth)
    with ms(2) have "xs ! k \<in> set xs" by simp
    with assms(5) have "valid_record (xs ! k)"
      "absent_or declared_dimensions (field (xs ! k) (lit ''Dimensions''))" by auto
    moreover from ms(2,3) k have "same_content rt (xs ! k) m" by auto
    ultimately show "\<not> isl (metric_line rt m)" by (rule metric_line_declared)
  qed
  from putMetrics_success[OF assms(1) ms(1) _ this, of client] assms(7) ms(2)
  show ?thesis by simp
qed

text \<open>
  Claim C4 at an input on which it fails. The metric data is the specification's
  scenario with a \<open>Dimensions\<close> array whose entry is \<open>null\<close>. The namespace and the
  data are accepted, the command is sent and the client accepts it, and the line
  announcing the publication is logged; then building the log line of the metric reads
  \<open>d.Name\<close> on \<open>null\<close>, the \<open>TypeError\<close> lands in the \<open>catch\<close> block, and the call
  reports failure.
\<close>

theorem null_dimension_reported_as_failure:
  "validateNamespace (lit ''Test'') = Inr ()
   \<and> parseMetricData (table_runtime [(null_dimension_text, JArr [null_dimension_record])])
         null_dimension_text =
       Inr [\<lparr>MetricName = JStr (lit ''X''), Value = Some (JNum 1), Unit = None,
              Timestamp = None, Dimensions = Some [JNull], Values = None, Counts = None,
              StatisticValues = None\<rparr>]
   \<and> putMetrics (table_runtime [(null_dimension_text, JArr [null_dimension_record])])
         accepting_client (lit ''Test'') null_dimension_text =
       (Inr \<lparr>success = False, metricsCount = None,
             error = Some (lit ''Cannot read properties of null (reading 'Name')'')\<rparr>,
        \<lparr>logged = [Info (lit ''Parsing metric data...''),
                   Info (lit ''Publishing 1 metric(s) to namespace \"Test\"''),
                   Info ([0x2713] @ lit '' Metrics published successfully''),
                   Error (lit ''Failed to put metrics: Cannot read properties of null (reading 'Name')'')],
         requests = [\<lparr>Namespace = lit ''Test'',
                      MetricData = [\<lparr>MetricName = JStr (lit ''X''), Value = Some (JNum 1),
                                      Unit = None, Timestamp = None,
                                      Dimensions = Some [JNull], Values = None,
                                      Counts = None, StatisticValues = None\<rparr>]\<rparr>]\<rparr>)"
proof -
  let ?rt = "table_runtime [(null_dimension_text, JArr [null_dimension_record])]"
  let ?m = "\<lparr>MetricName = JStr (lit ''X''), Value = Some (JNum 1), Unit = None,
             Timestamp = None, Dimensions = Some [JNull], Values = None, Counts = None,
             StatisticValues = None\<rparr> :: json MetricDatum"
  have p: "parseMetricData ?rt null_dimension_text = Inr [?m]"
    by (simp add: parseMetricData_single parse_metric_null_dimension table_runtime_def)
  have c: "accepting_client \<lparr>Namespace = lit ''Test'', MetricData = [?m]\<rparr> = None"
    by (simp add: accepting_client_def)
  have l: "metric_line ?rt ?m =
      Inl (JsError (lit ''Cannot read properties of null (reading 'Name')''))"
    by (simp add: metric_line_def dimension_text_def get_prop_def lit_def)
  have "putMetrics ?rt accepting_client (lit ''Test'') null_dimension_text =
       (Inr \<lparr>success = False, metricsCount = None,
             error = Some (lit ''Cannot read properties of null (reading 'Name')'')\<rparr>,
        \<lparr>logged = [Info (lit ''Parsing metric data...''),
                   Info (lit ''Publishing 1 metric(s) to namespace \"Test\"''),
                   Info ([0x2713] @ lit '' Metrics published successfully''),
                   Error (lit ''Failed to put metrics: Cannot read properties of null (reading 'Name')'')],
         requests = [\<lparr>Namespace = lit ''Test'', MetricData = [?m]\<rparr>]\<rparr>)"
    unfolding putMetrics_def
      putMetrics_try_accepted[where client = accepting_client, OF validateNamespace_Test p c]
    by (simp add: l error_text_def core_error_def show_nat.simps) (simp add: lit_def)
  with validateNamespace_Test p show ?thesis by simp
qed

text \<open>
  Claim C5, as the code has it. When the namespace and the data are accepted and the
  client rejects the command with an \<open>Error\<close>, the result is a failure whose error
  message is the client's message itself, with nothing before it; the prefix
  \<open>Failed to put metrics: \<close> goes only on the line given to \<open>core.error\<close>.
\<close>

theorem backend_message_returned_verbatim:
  "validateNamespace ns = Inr () \<and> parseMetricData rt s = Inr ms
     \<and> client \<lparr>Namespace = ns, MetricData = ms\<rparr> = Some (JsError msg)
   \<longrightarrow> fst (putMetrics rt client ns s) =
         Inr \<lparr>success = False, metricsCount = None, error = Some msg\<rparr>
       \<and> last (logged (snd (putMetrics rt client ns s))) =
           Error (lit ''Failed to put metrics: '' @ msg)"
  by (auto simp: putMetrics_rejected)

theorem backend_message_returned_verbatim_witness:
  "fst (putMetrics (table_runtime [(scenario_text, JArr [scenario_record])])
          (rejecting_client (lit ''User is not authorized to perform: cloudwatch:PutMetricData''))
          (lit ''Test'') scenario_text) =
     Inr \<lparr>success = False, metricsCount = None,
          error = Some (lit ''User is not authorized to perform: cloudwatch:PutMetricData'')\<rparr>
   \<and> last (logged (snd (putMetrics (table_runtime [(scenario_text, JArr [scenario_record])])
          (rejecting_client (lit ''User is not authorized to perform: cloudwatch:PutMetricData''))
          (lit ''Test'') scenario_text))) =
     Error (lit ''Failed to put metrics: ''
            @ lit ''User is not authorized to perform: cloudwatch:PutMetricData'')"
proof -
  let ?rt = "table_runtime [(scenario_text, JArr [scenario_record])]"
  let ?m = "\<lparr>MetricName = JStr (lit ''X''), Value = Some (JNum 1), Unit = None,
             Timestamp = None, Dimensions = None, Values = None, Counts = None,
             StatisticValues = None\<rparr> :: json MetricDatum"
  let ?msg = "lit ''User is not authorized to perform: cloudwatch:PutMetricData''"
  have p: "parseMetricData ?rt scenario_text = Inr [?m]"
    by (simp add: parseMetricData_single parse_metric_scenario table_runtime_def)
  have c: "rejecting_client ?msg \<lparr>Namespace = lit ''Test'', MetricData = [?m]\<rparr> =
      Some (JsError ?msg)"
    by (simp add: rejecting_client_def)
  from backend_message_returned_verbatim[of "lit ''Test''" ?rt scenario_text "[?m]"
      "rejecting_client ?msg" ?msg] validateNamespace_Test p c
  show ?thesis by blast
qed

text \<open>
  The claim as written fails: the error message returned for the rejected scenario is
  the client's message, not that message behind a prefix.
\<close>

theorem returned_message_has_no_prefix:
  "fst (putMetrics (table_runtime [(scenario_text, JArr [scenario_record])])
          (rejecting_client (lit ''AccessDenied'')) (lit ''Test'') scenario_text) =
     Inr \<lparr>success = False, metricsCount = None, error = Some (lit ''AccessDenied'')\<rparr>
   \<and> fst (putMetrics (table_runtime [(scenario_text, JArr [scenario_record])])
          (rejecting_client (lit ''AccessDenied'')) (lit ''Test'') scenario_text) \<noteq>
     Inr \<lparr>success = False, metricsCount = None,
          error = Some (lit ''Failed to put metrics: AccessDenied'')\<rparr>"
proof -
  let ?rt = "table_runtime [(scenario_text, JArr [scenario_record])]"
  let ?m = "\<lparr>MetricName = JStr (lit ''X''), Value = Some (JNum 1), Unit = None,
             Timestamp = None, Dimensions = None, Values = None, Counts = None,
             StatisticValues = None\<rparr> :: json MetricDatum"
  have p: "parseMetricData ?rt scenario_text = Inr [?m]"
    by (simp add: parseMetricData_single parse_metric_scenario table_runtime_def)
  have c: "rejecting_client (lit ''AccessDenied'') \<lparr>Namespace = lit ''Test'', MetricData = [?m]\<rparr> =
      Some (JsError (lit ''AccessDenied''))"
    by (simp add: rejecting_client_def)
  show ?thesis
    unfolding putMetrics_rejected[where client = "rejecting_client (lit ''AccessDenied'')",
        OF validateNamespace_Test p c]
    by (simp add: lit_def)
qed


lemma log_metrics_no_failure:
  assumes "find (\<lambda>x. isl (metric_line rt x)) ms = None"
  shows "fst (log_metrics rt ms fx) = Inr ()"
  using assms by (intro log_metrics_ok) (auto simp: find_None_iff)








end
